theory Spec2Isabelle
  imports Complex_Main
begin

section \<open>Shared data: JSON values, Python truthiness, strings, exceptions\<close>

text \<open>
  Messages, capability trees and user profiles are Python values decoded from JSON.
  A dict is an association list read with \<open>map_of\<close> (the first binding of a key is the
  one a lookup sees); JSON numbers are modelled by integers.
\<close>

datatype json =
    JNull
  | JBool bool
  | JNum int
  | JStr string
  | JArr "json list"
  | JObj "(string \<times> json) list"

text \<open>Python's truth value of a decoded JSON value (\<open>if x:\<close>, \<open>not x\<close>).\<close>

fun truthy :: "json \<Rightarrow> bool" where
  "truthy JNull = False"
| "truthy (JBool b) = b"
| "truthy (JNum n) = (n \<noteq> 0)"
| "truthy (JStr s) = (s \<noteq> [])"
| "truthy (JArr xs) = (xs \<noteq> [])"
| "truthy (JObj kvs) = (kvs \<noteq> [])"

text \<open>
  Python dicts whose order matters (they are iterated, or built key by key) are
  association lists with one binding per key, in insertion order: \<open>dict_set k v d\<close> is
  \<open>d[k] = v\<close>, which keeps the place of a key that is already there.
\<close>

fun dict_set :: "'k \<Rightarrow> 'v \<Rightarrow> ('k \<times> 'v) list \<Rightarrow> ('k \<times> 'v) list" where
  "dict_set k v [] = [(k, v)]"
| "dict_set k v ((k', v') # rest) =
     (if k' = k then (k, v) # rest else (k', v') # dict_set k v rest)"

text \<open>Exceptions of the source, as values.\<close>

datatype py_exc =
    McpError int string
  | AttributeError
  | ValueError
  | TypeError
  | JSONDecodeError
  | IncompleteReadError
  | OtherException string

text \<open>\<open>s.split(c)\<close> for a one-character separator: always at least one piece.\<close>

fun split_sep :: "char \<Rightarrow> string \<Rightarrow> string list" where
  "split_sep c [] = [[]]"
| "split_sep c (x # xs) =
     (if x = c then [] # split_sep c xs
      else (case split_sep c xs of [] \<Rightarrow> [[x]] | w # ws \<Rightarrow> (x # w) # ws))"

definition startswith :: "string \<Rightarrow> string \<Rightarrow> bool" where
  "startswith s p = (take (length p) s = p)"

definition endswith :: "string \<Rightarrow> string \<Rightarrow> bool" where
  "endswith s p = (length p \<le> length s \<and> drop (length s - length p) s = p)"

section \<open>Protocol engine, client role (protocol/client.py)\<close>

record ClientProtocol =
  initialized :: bool
  server_capabilities :: json
  client_capabilities :: json
  server_info :: json

text \<open>\<open>ClientProtocol.__init__\<close>.\<close>

definition ClientProtocol_init :: ClientProtocol where
  "ClientProtocol_init =
     \<lparr>initialized = False, server_capabilities = JObj [],
      client_capabilities = JObj [], server_info = JObj []\<rparr>"

text \<open>
  The loop of \<open>has_capability\<close>: \<open>current\<close> must be a dict holding \<open>part\<close>, then the
  walk goes on from \<open>current[part]\<close>.
\<close>

fun capability_walk :: "json \<Rightarrow> string list \<Rightarrow> bool" where
  "capability_walk current [] = True"
| "capability_walk current (part # parts) =
     (case current of
        JObj kvs \<Rightarrow>
          (case map_of kvs part of
             None \<Rightarrow> False
           | Some v \<Rightarrow> capability_walk v parts)
      | _ \<Rightarrow> False)"

definition has_capability :: "ClientProtocol \<Rightarrow> string \<Rightarrow> bool" where
  "has_capability self capability_path =
     (if \<not> initialized self then False
      else capability_walk (server_capabilities self) (split_sep CHR ''.'' capability_path))"

text \<open>\<open>result.get("capabilities", {})\<close> on the dict \<open>kvs\<close>.\<close>

definition get_capabilities :: "(string \<times> json) list \<Rightarrow> json" where
  "get_capabilities kvs = (case map_of kvs ''capabilities'' of None \<Rightarrow> JObj [] | Some c \<Rightarrow> c)"

text \<open>
  \<open>ClientProtocol.initialize\<close>. The peer and the transport are the environment:
  \<open>request\<close> is what \<open>send_request("initialize", ...)\<close> does (raises, or returns the
  peer's result) and \<open>notify\<close> what \<open>send_notification("initialized", {})\<close> does.
  The assignments happen in the source's order, so an exception leaves the fields
  written before it.
\<close>

definition initialize ::
  "ClientProtocol \<Rightarrow> json \<Rightarrow> (py_exc + json) \<Rightarrow> (py_exc + unit) \<Rightarrow> (py_exc + json) \<times> ClientProtocol"
where
  "initialize self capabilities request notify =
     (if initialized self then (Inr (server_info self), self)
      else
        let s1 = self\<lparr>client_capabilities := capabilities\<rparr> in
        (case request of
           Inl e \<Rightarrow> (Inl e, s1)
         | Inr result \<Rightarrow>
             let s2 = s1\<lparr>server_info := result\<rparr> in
             (case result of
                JObj kvs \<Rightarrow>
                  let s3 = s2\<lparr>server_capabilities := get_capabilities kvs\<rparr> in
                  (case notify of
                     Inl e \<Rightarrow> (Inl e, s3)
                   | Inr _ \<Rightarrow> (Inr result, s3\<lparr>initialized := True\<rparr>))
              | _ \<Rightarrow> (Inl AttributeError, s2))))"

text \<open>\<open>ClientProtocol.disconnect\<close>: the state is reset once the transport has closed.\<close>

definition disconnect :: "ClientProtocol \<Rightarrow> (py_exc + unit) \<Rightarrow> (py_exc + unit) \<times> ClientProtocol" where
  "disconnect self transport_disconnect =
     (case transport_disconnect of
        Inl e \<Rightarrow> (Inl e, self)
      | Inr _ \<Rightarrow>
          (Inr (), self\<lparr>initialized := False, server_capabilities := JObj [], server_info := JObj []\<rparr>))"

text \<open>
  \<open>ClientProtocol.shutdown\<close>: nothing when not initialized; otherwise the \<open>finally\<close>
  block resets the state whatever the two sends did.
\<close>

definition shutdown :: "ClientProtocol \<Rightarrow> ClientProtocol" where
  "shutdown self =
     (if \<not> initialized self then self
      else self\<lparr>initialized := False, server_capabilities := JObj [], server_info := JObj []\<rparr>)"

text \<open>
  A life of a client protocol instance is a list of calls. Beside the instance, the run
  keeps the answer of the most recent initialize exchange the peer answered (no field of
  the source: it is what the claim about the negotiated tree refers to).
\<close>

datatype client_call =
    Initialize json "py_exc + json" "py_exc + unit"
  | Disconnect "py_exc + unit"
  | Shutdown

fun client_step :: "ClientProtocol \<times> json option \<Rightarrow> client_call \<Rightarrow> ClientProtocol \<times> json option" where
  "client_step (self, answer) (Initialize capabilities request notify) =
     (snd (initialize self capabilities request notify),
      (if initialized self then answer
       else (case request of Inl _ \<Rightarrow> answer | Inr result \<Rightarrow> Some result)))"
| "client_step (self, answer) (Disconnect transport_disconnect) =
     (snd (disconnect self transport_disconnect), answer)"
| "client_step (self, answer) Shutdown = (shutdown self, answer)"

definition client_run :: "client_call list \<Rightarrow> ClientProtocol \<times> json option" where
  "client_run calls = foldl client_step (ClientProtocol_init, None) calls"

text \<open>
  The reading of "every component of the path is present as a dictionary key along the
  tree": \<open>descend tree ks\<close> is the node reached from \<open>tree\<close> along the keys \<open>ks\<close>.
\<close>

fun descend :: "json \<Rightarrow> string list \<Rightarrow> json option" where
  "descend t [] = Some t"
| "descend t (k # ks) =
     (case t of
        JObj kvs \<Rightarrow> (case map_of kvs k of None \<Rightarrow> None | Some v \<Rightarrow> descend v ks)
      | _ \<Rightarrow> None)"

definition key_present_at :: "json \<Rightarrow> string list \<Rightarrow> nat \<Rightarrow> bool" where
  "key_present_at tree parts i =
     (case descend tree (take i parts) of
        Some (JObj kvs) \<Rightarrow> parts ! i \<in> fst ` set kvs
      | _ \<Rightarrow> False)"

text \<open>
  What holds between the instance and the recorded answer in every run: an initialized
  instance caches the capability tree of that answer.
\<close>

definition negotiated_inv :: "ClientProtocol \<times> json option \<Rightarrow> bool" where
  "negotiated_inv p =
     (initialized (fst p) \<longrightarrow>
        (\<exists>kvs. snd p = Some (JObj kvs) \<and> server_capabilities (fst p) = get_capabilities kvs))"

text \<open>
  The handshake as the specification words it: initialization of a client-role instance
  completes when the server has answered the \<open>initialize\<close> request with its info and
  capability tree and the \<open>initialized\<close> notification has been sent; it is over again
  when the instance shuts down or its transport disconnects. While it is complete a
  further \<open>initialize\<close> call exchanges nothing. \<open>negotiated_tree calls\<close> is the
  capability tree negotiated in the most recent completed handshake of a run, and
  \<open>None\<close> when initialization has not completed or has been undone since. This is
  the claim's side of the comparison; it reads no field of the instance.
\<close>

fun handshake_step :: "json option \<Rightarrow> client_call \<Rightarrow> json option" where
  "handshake_step negotiated (Initialize capabilities request notify) =
     (case negotiated of
        Some tree \<Rightarrow> Some tree
      | None \<Rightarrow>
          (case request of
             Inr (JObj kvs) \<Rightarrow> (case notify of Inr _ \<Rightarrow> Some (get_capabilities kvs) | Inl _ \<Rightarrow> None)
           | _ \<Rightarrow> None))"
| "handshake_step negotiated (Disconnect transport_disconnect) =
     (case transport_disconnect of Inl _ \<Rightarrow> negotiated | Inr _ \<Rightarrow> None)"
| "handshake_step negotiated Shutdown = None"

definition negotiated_tree :: "client_call list \<Rightarrow> json option" where
  "negotiated_tree calls = foldl handshake_step None calls"

text \<open>The instance agrees with the handshake: its flag and its cached tree.\<close>

definition handshake_agrees :: "ClientProtocol \<Rightarrow> json option \<Rightarrow> bool" where
  "handshake_agrees self negotiated =
     (case negotiated of
        None \<Rightarrow> \<not> initialized self
      | Some tree \<Rightarrow> initialized self \<and> server_capabilities self = tree)"

section \<open>Password provider: bearer tokens (security/auth.py)\<close>

text \<open>
  The token store of \<open>BasicAuthProvider\<close>: \<open>tokens\<close> maps a token to the user profile
  it was issued for, \<open>token_expiry\<close> to its absolute expiry time. Wall-clock readings
  (\<open>time.time()\<close>) are real numbers handed in by the caller, and so is the string that
  \<open>secrets.token_hex(32)\<close> draws.
\<close>

record BasicAuthProvider =
  users :: "string \<rightharpoonup> json"
  tokens :: "string \<rightharpoonup> json"
  token_expiry :: "string \<rightharpoonup> real"
  token_lifetime :: real

text \<open>\<open>BasicAuthProvider.revoke_token\<close>.\<close>

definition revoke_token :: "BasicAuthProvider \<Rightarrow> string \<Rightarrow> bool \<times> BasicAuthProvider" where
  "revoke_token self token =
     (if tokens self token = None then (False, self)
      else (True, self\<lparr>tokens := (tokens self)(token := None),
                         token_expiry := (token_expiry self)(token := None)\<rparr>))"

text \<open>\<open>BasicAuthProvider.validate_token\<close>, at wall-clock time \<open>now\<close>.\<close>

definition validate_token :: "BasicAuthProvider \<Rightarrow> string \<Rightarrow> real \<Rightarrow> json option \<times> BasicAuthProvider" where
  "validate_token self token now =
     (case tokens self token of
        None \<Rightarrow> (None, self)
      | Some user_info \<Rightarrow>
          (case token_expiry self token of
             None \<Rightarrow> (Some user_info, self)
           | Some expiry \<Rightarrow>
               if expiry < now then (None, snd (revoke_token self token))
               else (Some user_info, self)))"

text \<open>
  \<open>BasicAuthProvider.generate_token\<close>, at wall-clock time \<open>now\<close>, when the random
  generator draws \<open>token\<close>.
\<close>

definition generate_token :: "BasicAuthProvider \<Rightarrow> json \<Rightarrow> string \<Rightarrow> real \<Rightarrow> string \<times> BasicAuthProvider" where
  "generate_token self user_info token now =
     (token, self\<lparr>tokens := (tokens self)(token \<mapsto> user_info),
                   token_expiry := (token_expiry self)(token \<mapsto> now + token_lifetime self)\<rparr>)"

section \<open>Access control (security/acl.py)\<close>

datatype Permission =
    SERVER_VIEW | SERVER_CREATE | SERVER_MODIFY | SERVER_DELETE | SERVER_START | SERVER_STOP
  | CLIENT_VIEW | CLIENT_CREATE | CLIENT_MODIFY | CLIENT_DELETE
  | RESOURCE_VIEW | RESOURCE_CREATE | RESOURCE_MODIFY | RESOURCE_DELETE
  | TOOL_VIEW | TOOL_CALL
  | PROMPT_VIEW | PROMPT_USE
  | SAMPLING_REQUEST
  | ROUTER_VIEW | ROUTER_MODIFY
  | ADMIN_VIEW | ADMIN_MODIFY

record Resource =
  resource_type :: string
  resource_id :: "string option"

text \<open>\<open>Resource.matches\<close>: \<open>self\<close> is the role's entry, \<open>other\<close> the queried resource.\<close>

definition matches :: "Resource \<Rightarrow> Resource \<Rightarrow> bool" where
  "matches self other =
     (if resource_type self \<noteq> resource_type other then False
      else if resource_id self = None then True
      else if resource_id other = None then False
      else resource_id self = resource_id other)"

text \<open>
  A role. Its \<open>permissions\<close> dict (resource to set of permissions) is an association list
  in insertion order, the order in which Python iterates a dict.
\<close>

record Role =
  name :: string
  description :: "string option"
  permissions :: "(Resource \<times> Permission set) list"

fun add_permission_items ::
  "(Resource \<times> Permission set) list \<Rightarrow> Resource \<Rightarrow> Permission \<Rightarrow> (Resource \<times> Permission set) list"
where
  "add_permission_items [] resource permission = [(resource, {permission})]"
| "add_permission_items ((r, ps) # rest) resource permission =
     (if r = resource then (r, insert permission ps) # rest
      else (r, ps) # add_permission_items rest resource permission)"

text \<open>\<open>Role.add_permission\<close>.\<close>

definition add_permission :: "Role \<Rightarrow> Resource \<Rightarrow> Permission \<Rightarrow> Role" where
  "add_permission self resource permission =
     self\<lparr>permissions := add_permission_items (permissions self) resource permission\<rparr>"

text \<open>
  \<open>Role.has_permission\<close>: the loop over \<open>self.permissions.items()\<close>. The \<open>return\<close> sits
  inside the \<open>if\<close>, so the first entry that matches the resource decides.
\<close>

fun has_permission_items :: "(Resource \<times> Permission set) list \<Rightarrow> Resource \<Rightarrow> Permission \<Rightarrow> bool" where
  "has_permission_items [] resource permission = False"
| "has_permission_items ((role_resource, ps) # rest) resource permission =
     (if matches role_resource resource then permission \<in> ps
      else has_permission_items rest resource permission)"

definition Role_has_permission :: "Role \<Rightarrow> Resource \<Rightarrow> Permission \<Rightarrow> bool" where
  "Role_has_permission self resource permission =
     has_permission_items (permissions self) resource permission"

record AccessControlList =
  roles :: "string \<rightharpoonup> Role"
  user_roles :: "string \<rightharpoonup> string list"

definition admin_role :: Role where
  "admin_role =
     foldl (\<lambda>r (res, p). add_permission r res p)
       \<lparr>name = ''admin'', description = Some ''Administrator with full access'', permissions = []\<rparr>
       [(\<lparr>resource_type = ''server'', resource_id = None\<rparr>, SERVER_VIEW),
        (\<lparr>resource_type = ''server'', resource_id = None\<rparr>, SERVER_CREATE),
        (\<lparr>resource_type = ''server'', resource_id = None\<rparr>, SERVER_MODIFY),
        (\<lparr>resource_type = ''server'', resource_id = None\<rparr>, SERVER_DELETE),
        (\<lparr>resource_type = ''server'', resource_id = None\<rparr>, SERVER_START),
        (\<lparr>resource_type = ''server'', resource_id = None\<rparr>, SERVER_STOP),
        (\<lparr>resource_type = ''client'', resource_id = None\<rparr>, CLIENT_VIEW),
        (\<lparr>resource_type = ''client'', resource_id = None\<rparr>, CLIENT_CREATE),
        (\<lparr>resource_type = ''client'', resource_id = None\<rparr>, CLIENT_MODIFY),
        (\<lparr>resource_type = ''client'', resource_id = None\<rparr>, CLIENT_DELETE),
        (\<lparr>resource_type = ''resource'', resource_id = None\<rparr>, RESOURCE_VIEW),
        (\<lparr>resource_type = ''resource'', resource_id = None\<rparr>, RESOURCE_CREATE),
        (\<lparr>resource_type = ''resource'', resource_id = None\<rparr>, RESOURCE_MODIFY),
        (\<lparr>resource_type = ''resource'', resource_id = None\<rparr>, RESOURCE_DELETE),
        (\<lparr>resource_type = ''tool'', resource_id = None\<rparr>, TOOL_VIEW),
        (\<lparr>resource_type = ''tool'', resource_id = None\<rparr>, TOOL_CALL),
        (\<lparr>resource_type = ''prompt'', resource_id = None\<rparr>, PROMPT_VIEW),
        (\<lparr>resource_type = ''prompt'', resource_id = None\<rparr>, PROMPT_USE),
        (\<lparr>resource_type = ''sampling'', resource_id = None\<rparr>, SAMPLING_REQUEST),
        (\<lparr>resource_type = ''router'', resource_id = None\<rparr>, ROUTER_VIEW),
        (\<lparr>resource_type = ''router'', resource_id = None\<rparr>, ROUTER_MODIFY),
        (\<lparr>resource_type = ''admin'', resource_id = None\<rparr>, ADMIN_VIEW),
        (\<lparr>resource_type = ''admin'', resource_id = None\<rparr>, ADMIN_MODIFY)]"

definition user_role :: Role where
  "user_role =
     foldl (\<lambda>r (res, p). add_permission r res p)
       \<lparr>name = ''user'', description = Some ''Regular user with limited access'', permissions = []\<rparr>
       [(\<lparr>resource_type = ''server'', resource_id = None\<rparr>, SERVER_VIEW),
        (\<lparr>resource_type = ''client'', resource_id = None\<rparr>, CLIENT_VIEW),
        (\<lparr>resource_type = ''resource'', resource_id = None\<rparr>, RESOURCE_VIEW),
        (\<lparr>resource_type = ''tool'', resource_id = None\<rparr>, TOOL_VIEW),
        (\<lparr>resource_type = ''tool'', resource_id = None\<rparr>, TOOL_CALL),
        (\<lparr>resource_type = ''prompt'', resource_id = None\<rparr>, PROMPT_VIEW),
        (\<lparr>resource_type = ''prompt'', resource_id = None\<rparr>, PROMPT_USE),
        (\<lparr>resource_type = ''sampling'', resource_id = None\<rparr>, SAMPLING_REQUEST)]"

definition guest_role :: Role where
  "guest_role =
     foldl (\<lambda>r (res, p). add_permission r res p)
       \<lparr>name = ''guest'', description = Some ''Guest user with minimal access'', permissions = []\<rparr>
       [(\<lparr>resource_type = ''server'', resource_id = None\<rparr>, SERVER_VIEW),
        (\<lparr>resource_type = ''resource'', resource_id = None\<rparr>, RESOURCE_VIEW)]"

text \<open>\<open>AccessControlList._initialize_default_roles\<close>.\<close>

definition initialize_default_roles :: "AccessControlList \<Rightarrow> AccessControlList" where
  "initialize_default_roles self =
     self\<lparr>roles := (roles self)(''admin'' \<mapsto> admin_role, ''user'' \<mapsto> user_role, ''guest'' \<mapsto> guest_role)\<rparr>"

text \<open>
  \<open>AccessControlList._load_roles\<close>. The roles file is the environment: \<open>None\<close> when it
  does not exist, otherwise the roles it lists (already built by \<open>Role.from_dict\<close>, under
  their keys and in file order) and its \<open>user_roles\<close> object, which is taken as it is.
  A file that cannot be read to the end leaves the roles read so far and no assignments,
  which is the case of a shorter file with an empty \<open>user_roles\<close>.
\<close>

definition load_roles ::
  "AccessControlList \<Rightarrow> ((string \<times> Role) list \<times> (string \<rightharpoonup> string list)) option \<Rightarrow> AccessControlList"
where
  "load_roles self file =
     (case file of
        None \<Rightarrow> self
      | Some (roles_data, user_roles_data) \<Rightarrow>
          self\<lparr>roles := foldl (\<lambda>m (role_name, role). m(role_name \<mapsto> role)) (roles self) roles_data,
                user_roles := user_roles_data\<rparr>)"

text \<open>\<open>AccessControlList.__init__\<close>.\<close>

definition AccessControlList_init ::
  "((string \<times> Role) list \<times> (string \<rightharpoonup> string list)) option \<Rightarrow> AccessControlList"
where
  "AccessControlList_init file =
     load_roles (initialize_default_roles \<lparr>roles = Map.empty, user_roles = Map.empty\<rparr>) file"

text \<open>
  The four mutations. Each ends by writing the roles file (\<open>_save_roles\<close>), which does not
  change the object and is left out.
\<close>

definition add_role :: "AccessControlList \<Rightarrow> Role \<Rightarrow> AccessControlList" where
  "add_role self role = self\<lparr>roles := (roles self)(name role \<mapsto> role)\<rparr>"

text \<open>
  \<open>remove_role\<close>: \<open>roles.remove(role_name)\<close> on a list that holds the name deletes its
  first occurrence, which is \<open>remove1\<close>; on a list without the name nothing happens.
\<close>

definition remove_role :: "AccessControlList \<Rightarrow> string \<Rightarrow> bool \<times> AccessControlList" where
  "remove_role self role_name =
     (if roles self role_name = None then (False, self)
      else (True, self\<lparr>roles := (roles self)(role_name := None),
                         user_roles := (\<lambda>username. map_option (remove1 role_name) (user_roles self username))\<rparr>))"

definition assign_role :: "AccessControlList \<Rightarrow> string \<Rightarrow> string \<Rightarrow> bool \<times> AccessControlList" where
  "assign_role self username role_name =
     (if roles self role_name = None then (False, self)
      else
        let assigned = (case user_roles self username of None \<Rightarrow> [] | Some rs \<Rightarrow> rs) in
        if role_name \<in> set assigned
        then (True, self\<lparr>user_roles := (user_roles self)(username \<mapsto> assigned)\<rparr>)
        else (True, self\<lparr>user_roles := (user_roles self)(username \<mapsto> assigned @ [role_name])\<rparr>))"

definition revoke_role :: "AccessControlList \<Rightarrow> string \<Rightarrow> string \<Rightarrow> bool \<times> AccessControlList" where
  "revoke_role self username role_name =
     (case user_roles self username of
        None \<Rightarrow> (False, self)
      | Some rs \<Rightarrow>
          if role_name \<notin> set rs then (False, self)
          else
            let rs' = remove1 role_name rs in
            if rs' = [] then (True, self\<lparr>user_roles := (user_roles self)(username := None)\<rparr>)
            else (True, self\<lparr>user_roles := (user_roles self)(username \<mapsto> rs')\<rparr>))"

definition get_user_roles :: "AccessControlList \<Rightarrow> string \<Rightarrow> string list" where
  "get_user_roles self username = (case user_roles self username of None \<Rightarrow> [] | Some rs \<Rightarrow> rs)"

text \<open>\<open>AccessControlList.has_permission\<close>: the loop over the user's role names.\<close>

fun has_permission_roles :: "(string \<rightharpoonup> Role) \<Rightarrow> string list \<Rightarrow> Resource \<Rightarrow> Permission \<Rightarrow> bool" where
  "has_permission_roles rm [] resource permission = False"
| "has_permission_roles rm (role_name # rest) resource permission =
     (case rm role_name of
        None \<Rightarrow> has_permission_roles rm rest resource permission
      | Some role \<Rightarrow>
          if Role_has_permission role resource permission then True
          else has_permission_roles rm rest resource permission)"

definition has_permission :: "AccessControlList \<Rightarrow> string \<Rightarrow> Resource \<Rightarrow> Permission \<Rightarrow> bool" where
  "has_permission self username resource permission =
     has_permission_roles (roles self) (get_user_roles self username) resource permission"

text \<open>A life of an access control list: the constructor, then mutations in any order.\<close>

datatype acl_call =
    AddRole Role
  | RemoveRole string
  | AssignRole string string
  | RevokeRole string string

fun acl_step :: "AccessControlList \<Rightarrow> acl_call \<Rightarrow> AccessControlList" where
  "acl_step self (AddRole role) = add_role self role"
| "acl_step self (RemoveRole role_name) = snd (remove_role self role_name)"
| "acl_step self (AssignRole username role_name) = snd (assign_role self username role_name)"
| "acl_step self (RevokeRole username role_name) = snd (revoke_role self username role_name)"

text \<open>No user's assignment list names a role twice.\<close>

definition assignments_distinct :: "(string \<rightharpoonup> string list) \<Rightarrow> bool" where
  "assignments_distinct ur = (\<forall>username rs. ur username = Some rs \<longrightarrow> distinct rs)"

text \<open>The calls that bring a role called \<open>n\<close> back.\<close>

fun adds_role_named :: "string \<Rightarrow> acl_call \<Rightarrow> bool" where
  "adds_role_named n (AddRole role) = (name role = n)"
| "adds_role_named n _ = False"

text \<open>The role \<open>n\<close> is gone: not defined, and in no user's list.\<close>

definition role_absent :: "string \<Rightarrow> AccessControlList \<Rightarrow> bool" where
  "role_absent n self = (roles self n = None \<and> (\<forall>username. n \<notin> set (get_user_roles self username)))"

text \<open>The roles file, if there is one, names no role twice in a user's list.\<close>

definition file_distinct :: "((string \<times> Role) list \<times> (string \<rightharpoonup> string list)) option \<Rightarrow> bool" where
  "file_distinct file = (case file of None \<Rightarrow> True | Some (roles_data, ur) \<Rightarrow> assignments_distinct ur)"

section \<open>Message router (router/route.py, router/router.py)\<close>

datatype RouteType = SERVER | CLIENT | ALL_SERVERS | ALL_CLIENTS | CAPABILITY | HUB

record RouteTarget =
  route_type :: RouteType
  target_id :: "string option"
  capability :: "string option"

text \<open>\<open>RouteTarget.__init__\<close> with \<open>_validate\<close>: \<open>not x\<close> holds of \<open>None\<close> and of the empty string.\<close>

definition RouteTarget_new :: "RouteType \<Rightarrow> string option \<Rightarrow> string option \<Rightarrow> py_exc + RouteTarget" where
  "RouteTarget_new rt tid cap =
     (if rt \<in> {SERVER, CLIENT} \<and> (tid = None \<or> tid = Some []) then Inl ValueError
      else if rt = CAPABILITY \<and> (cap = None \<or> cap = Some []) then Inl ValueError
      else Inr \<lparr>route_type = rt, target_id = tid, capability = cap\<rparr>)"

record Route =
  source :: RouteTarget
  destination :: RouteTarget
  method_pattern :: "string option"

text \<open>\<open>Route.matches_method\<close>, test by test in the source's order.\<close>

definition matches_method :: "Route \<Rightarrow> string \<Rightarrow> bool" where
  "matches_method self method =
     (case method_pattern self of
        None \<Rightarrow> True
      | Some pattern \<Rightarrow>
          if pattern = [] then True
          else if pattern = method then True
          else if endswith pattern ''/*'' then startswith method (take (length pattern - 2) pattern)
          else if endswith pattern ''*'' then startswith method (take (length pattern - 1) pattern)
          else if CHR ''*'' \<in> set pattern
          then (let parts = split_sep CHR ''*'' pattern in
                if length parts = 2
                then startswith method (parts ! 0) \<and> endswith method (parts ! 1)
                else False)
          else False)"

text \<open>
  The router's route table is a Python \<open>set\<close> of routes (routes are hashable values):
  adding a route that is already there changes nothing, and the object keeps no record of
  the order in which routes were added.
\<close>

record MessageRouter =
  routes :: "Route set"

definition add_route :: "MessageRouter \<Rightarrow> Route \<Rightarrow> MessageRouter" where
  "add_route self route = self\<lparr>routes := insert route (routes self)\<rparr>"

definition remove_route :: "MessageRouter \<Rightarrow> Route \<Rightarrow> MessageRouter" where
  "remove_route self route = self\<lparr>routes := routes self - {route}\<rparr>"

text \<open>The two default routes of \<open>_initialize_default_routes\<close>.\<close>

abbreviation clients_to_hub :: Route where
  "clients_to_hub \<equiv>
     \<lparr>source = \<lparr>route_type = ALL_CLIENTS, target_id = None, capability = None\<rparr>,
      destination = \<lparr>route_type = HUB, target_id = None, capability = None\<rparr>,
      method_pattern = None\<rparr>"

abbreviation hub_to_clients :: Route where
  "hub_to_clients \<equiv>
     \<lparr>source = \<lparr>route_type = HUB, target_id = None, capability = None\<rparr>,
      destination = \<lparr>route_type = ALL_CLIENTS, target_id = None, capability = None\<rparr>,
      method_pattern = Some ''notifications/*''\<rparr>"

definition initialize_default_routes :: "MessageRouter \<Rightarrow> MessageRouter" where
  "initialize_default_routes self = add_route (add_route self clients_to_hub) hub_to_clients"

definition MessageRouter_init :: MessageRouter where
  "MessageRouter_init = initialize_default_routes \<lparr>routes = {}\<rparr>"

definition clear_routes :: "MessageRouter \<Rightarrow> MessageRouter" where
  "clear_routes self = initialize_default_routes (self\<lparr>routes := {}\<rparr>)"

text \<open>
  \<open>MessageRouter.get_matching_routes\<close>. The comprehension \<open>for route in self.routes\<close>
  walks the set in the order Python's set iteration yields, which depends on the hashes of
  the routes and not on when they were added; that sequence is the argument
  \<open>routes_iter\<close>. The queried source is called \<open>src\<close> here, since \<open>source\<close> is the field
  of a route.
\<close>

definition get_matching_routes :: "Route list \<Rightarrow> RouteTarget \<Rightarrow> string \<Rightarrow> Route list" where
  "get_matching_routes routes_iter src method =
     (let source_type_matches =
            filter (\<lambda>route. route_type (source route) = route_type src) routes_iter
      in
      if source_type_matches = [] then []
      else
        let source_matches =
              (if route_type src \<in> {SERVER, CLIENT} \<and> target_id src \<noteq> None
               then filter (\<lambda>route. target_id (source route) = target_id src) source_type_matches
               else if route_type src = CAPABILITY \<and> capability src \<noteq> None
               then filter (\<lambda>route. capability (source route) = capability src) source_type_matches
               else source_type_matches)
        in
        if source_matches = [] then []
        else filter (\<lambda>route. matches_method route method) source_matches)"

text \<open>A sequence in which the set of routes of a router can be iterated: each route once.\<close>

definition iteration_of :: "MessageRouter \<Rightarrow> Route list \<Rightarrow> bool" where
  "iteration_of self routes_iter = (distinct routes_iter \<and> set routes_iter = routes self)"

text \<open>
  The three filters of the lookup, each as a test on one route: the source's route type;
  the source's id (for a SERVER or CLIENT source that carries one) or capability (for a
  CAPABILITY source that carries one); the method pattern.
\<close>

definition source_type_filter :: "RouteTarget \<Rightarrow> Route \<Rightarrow> bool" where
  "source_type_filter src route = (route_type (source route) = route_type src)"

definition source_id_filter :: "RouteTarget \<Rightarrow> Route \<Rightarrow> bool" where
  "source_id_filter src route =
     (if route_type src \<in> {SERVER, CLIENT} \<and> target_id src \<noteq> None
      then target_id (source route) = target_id src
      else if route_type src = CAPABILITY \<and> capability src \<noteq> None
      then capability (source route) = capability src
      else True)"

definition passes_filters :: "RouteTarget \<Rightarrow> string \<Rightarrow> Route \<Rightarrow> bool" where
  "passes_filters src method route =
     (source_type_filter src route \<and> source_id_filter src route \<and> matches_method route method)"

text \<open>Two routes of client \<open>c1\<close>, used below.\<close>

abbreviation c1_tools_to_s1 :: Route where
  "c1_tools_to_s1 \<equiv>
     \<lparr>source = \<lparr>route_type = CLIENT, target_id = Some ''c1'', capability = None\<rparr>,
      destination = \<lparr>route_type = SERVER, target_id = Some ''s1'', capability = None\<rparr>,
      method_pattern = Some ''tools/*''\<rparr>"

abbreviation c1_any_to_s2 :: Route where
  "c1_any_to_s2 \<equiv>
     \<lparr>source = \<lparr>route_type = CLIENT, target_id = Some ''c1'', capability = None\<rparr>,
      destination = \<lparr>route_type = SERVER, target_id = Some ''s2'', capability = None\<rparr>,
      method_pattern = None\<rparr>"

section \<open>Server supervisor (hub/server_manager.py)\<close>

text \<open>
  The entry \<open>self.servers[server_id]\<close>. \<open>process\<close> is the child's handle as the
  supervisor sees it through \<open>poll()\<close>: \<open>None\<close> when the entry has no handle (an entry
  read back from the process registry file), \<open>Some None\<close> while the child runs,
  \<open>Some (Some c)\<close> once it has exited with code \<open>c\<close>. The pid and the timestamps, which
  the supervisor writes and never reads, are left out.
\<close>

record server_info =
  config :: json
  process :: "int option option"
  running :: bool
  retries :: int
  info_auto_restart :: json
  exit_code :: "int option"

record ServerManager =
  servers :: "(string \<times> server_info) list"
  max_retries :: int
  auto_restart :: bool
  pending_restarts :: "string list"

text \<open>
  \<open>ServerManager.start_server\<close>. \<open>spawned\<close> says whether \<open>subprocess.Popen\<close> returned a
  child (any exception inside the \<open>try\<close> block makes the method return false). The new
  entry replaces the old one, with \<open>"retries": 0\<close>.
\<close>

definition start_server :: "ServerManager \<Rightarrow> string \<Rightarrow> json \<Rightarrow> bool \<Rightarrow> bool \<times> ServerManager" where
  "start_server self server_id server_config spawned =
     (if (case map_of (servers self) server_id of None \<Rightarrow> False | Some info \<Rightarrow> running info)
      then (True, self)
      else
        (case server_config of
           JObj kvs \<Rightarrow>
             if \<not> (case map_of kvs ''command'' of None \<Rightarrow> False | Some command \<Rightarrow> truthy command)
             then (False, self)
             else if \<not> spawned then (False, self)
             else
               (True,
                self\<lparr>servers :=
                  dict_set server_id
                    \<lparr>config = server_config, process = Some None, running = True, retries = 0,
                     info_auto_restart =
                       (case map_of kvs ''auto_restart'' of
                          None \<Rightarrow> JBool (auto_restart self)
                        | Some v \<Rightarrow> v),
                     exit_code = None\<rparr>
                    (servers self)\<rparr>)
         | _ \<Rightarrow> (False, self)))"

text \<open>
  The body of the monitor's loop for one server: a child found terminated is marked
  stopped; if auto-restart is on and \<open>retries < max_retries\<close>, the counter is incremented
  and a delayed restart is scheduled (\<open>asyncio.create_task(self._delayed_restart(...))\<close>).
\<close>

definition monitor_server :: "ServerManager \<Rightarrow> string \<Rightarrow> ServerManager" where
  "monitor_server self server_id =
     (case map_of (servers self) server_id of
        None \<Rightarrow> self
      | Some info \<Rightarrow>
          if \<not> running info then self
          else
            (case process info of
               Some (Some code) \<Rightarrow>
                 let stopped = info\<lparr>running := False, exit_code := Some code\<rparr> in
                 if auto_restart self \<and> truthy (info_auto_restart info)
                 then
                   if retries stopped < max_retries self
                   then self\<lparr>servers :=
                              dict_set server_id (stopped\<lparr>retries := retries stopped + 1\<rparr>) (servers self),
                            pending_restarts := pending_restarts self @ [server_id]\<rparr>
                   else self\<lparr>servers := dict_set server_id stopped (servers self)\<rparr>
                 else self\<lparr>servers := dict_set server_id stopped (servers self)\<rparr>
             | _ \<Rightarrow> self))"

text \<open>One pass of \<open>_monitor_servers\<close> over \<open>list(self.servers.items())\<close>.\<close>

definition monitor_servers :: "ServerManager \<Rightarrow> ServerManager" where
  "monitor_servers self = foldl monitor_server self (map fst (servers self))"

text \<open>\<open>_delayed_restart\<close>, once its sleep is over.\<close>

definition delayed_restart :: "ServerManager \<Rightarrow> string \<Rightarrow> bool \<Rightarrow> ServerManager" where
  "delayed_restart self server_id spawned =
     (case map_of (servers self) server_id of
        None \<Rightarrow> self
      | Some info \<Rightarrow> snd (start_server self server_id (config info) spawned))"

text \<open>
  \<open>stop_server\<close>, as far as the entry goes: \<open>waited\<close> is the child's return code, or
  \<open>None\<close> when waiting for it raised.
\<close>

definition stop_server :: "ServerManager \<Rightarrow> string \<Rightarrow> int option \<Rightarrow> bool \<times> ServerManager" where
  "stop_server self server_id waited =
     (case map_of (servers self) server_id of
        None \<Rightarrow> (True, self)
      | Some info \<Rightarrow>
          if \<not> running info then (True, self)
          else
            (case process info of
               None \<Rightarrow> (False, self)
             | Some _ \<Rightarrow>
                 (case waited of
                    None \<Rightarrow> (False, self)
                  | Some code \<Rightarrow>
                      (True,
                       self\<lparr>servers :=
                         dict_set server_id
                           (info\<lparr>process := Some (Some code), running := False, exit_code := Some code\<rparr>)
                           (servers self)\<rparr>))))"

text \<open>\<open>restart_server\<close>: the explicit restart.\<close>

definition restart_server :: "ServerManager \<Rightarrow> string \<Rightarrow> int option \<Rightarrow> bool \<Rightarrow> bool \<times> ServerManager" where
  "restart_server self server_id waited spawned =
     (case map_of (servers self) server_id of
        None \<Rightarrow> (False, self)
      | Some info \<Rightarrow>
          if running info
          then
            (case stop_server self server_id waited of
               (False, self') \<Rightarrow> (False, self')
             | (True, self') \<Rightarrow> start_server self' server_id (config info) spawned)
          else start_server self server_id (config info) spawned)"

text \<open>
  What happens to a supervisor: explicit starts and restarts, a child exiting (the
  environment), a pass of the monitor, and a scheduled delayed restart coming due.
\<close>

datatype supervisor_event =
    StartServer string json bool
  | RestartServer string "int option" bool
  | ChildExits string int
  | MonitorPass
  | DelayedRestartDue string bool

definition child_exits :: "ServerManager \<Rightarrow> string \<Rightarrow> int \<Rightarrow> ServerManager" where
  "child_exits self server_id code =
     (case map_of (servers self) server_id of
        None \<Rightarrow> self
      | Some info \<Rightarrow>
          if process info = Some None
          then self\<lparr>servers := dict_set server_id (info\<lparr>process := Some (Some code)\<rparr>) (servers self)\<rparr>
          else self)"

fun supervisor_step :: "ServerManager \<Rightarrow> supervisor_event \<Rightarrow> ServerManager" where
  "supervisor_step self (StartServer server_id server_config spawned) =
     snd (start_server self server_id server_config spawned)"
| "supervisor_step self (RestartServer server_id waited spawned) =
     snd (restart_server self server_id waited spawned)"
| "supervisor_step self (ChildExits server_id code) = child_exits self server_id code"
| "supervisor_step self MonitorPass = monitor_servers self"
| "supervisor_step self (DelayedRestartDue server_id spawned) =
     (if server_id \<in> set (pending_restarts self)
      then delayed_restart (self\<lparr>pending_restarts := remove1 server_id (pending_restarts self)\<rparr>)
             server_id spawned
      else self)"

text \<open>
  The number of automatic restarts the monitor schedules in a run: the growth of the list
  of pending delayed restarts over the monitor passes.
\<close>

fun scheduled_restarts :: "ServerManager \<Rightarrow> supervisor_event list \<Rightarrow> nat" where
  "scheduled_restarts self [] = 0"
| "scheduled_restarts self (e # es) =
     (case e of
        MonitorPass \<Rightarrow>
          length (pending_restarts (supervisor_step self e)) - length (pending_restarts self)
      | _ \<Rightarrow> 0)
     + scheduled_restarts (supervisor_step self e) es"

text \<open>
  A child that exits with code 1 after every start, seen by the monitor, its delayed
  restart coming due and spawning again: one round of a flaky server.
\<close>

abbreviation flaky_round :: "supervisor_event list" where
  "flaky_round \<equiv> [ChildExits ''flaky'' 1, MonitorPass, DelayedRestartDue ''flaky'' True]"

abbreviation flaky_config :: json where
  "flaky_config \<equiv> JObj [(''command'', JStr ''flaky-server''), (''auto_restart'', JBool True)]"

abbreviation fresh_manager :: ServerManager where
  "fresh_manager \<equiv> \<lparr>servers = [], max_retries = 3, auto_restart = True, pending_restarts = []\<rparr>"

section \<open>Hub facade: destination handlers (hub/manager.py)\<close>

text \<open>A message is a dict; \<open>dict_get d k dflt\<close> is \<open>d.get(k, dflt)\<close>, with \<open>JNull\<close> for \<open>None\<close>.\<close>

type_synonym message = "(string \<times> json) list"

definition dict_get :: "(string \<times> json) list \<Rightarrow> string \<Rightarrow> json \<Rightarrow> json" where
  "dict_get d k dflt = (case map_of d k of None \<Rightarrow> dflt | Some v \<Rightarrow> v)"

text \<open>
  A handler returns a response dict or \<open>None\<close>; \<open>if response\<close> is false for \<open>None\<close> and
  for a value that is false in Python, such as the empty dict.
\<close>

definition response_truthy :: "json option \<Rightarrow> bool" where
  "response_truthy response = (case response of None \<Rightarrow> False | Some r \<Rightarrow> truthy r)"

text \<open>
  The loop shared by the broadcasting handlers:
  \<^verbatim>\<open>
  first_response = None
  for member_id, member in members.items():
      try:
          response = await member.interface.forward_message(message)
          if response and first_response is None:
              first_response = response
      except Exception as e:
          logger.error(...)
  return first_response
  \<close>
  \<open>forward\<close> is what forwarding to one member does: it raises or returns. Beside
  \<open>first_response\<close> the model returns the ids of the members the message was forwarded
  to, in order.
\<close>

fun broadcast ::
  "('c \<Rightarrow> message \<Rightarrow> py_exc + json option) \<Rightarrow> message \<Rightarrow> json option \<Rightarrow> string list
     \<Rightarrow> (string \<times> 'c) list \<Rightarrow> json option \<times> string list"
where
  "broadcast forward message first_response forwarded [] = (first_response, forwarded)"
| "broadcast forward message first_response forwarded ((member_id, member) # rest) =
     (case forward member message of
        Inl e \<Rightarrow> broadcast forward message first_response (forwarded @ [member_id]) rest
      | Inr response \<Rightarrow>
          broadcast forward message
            (if response_truthy response \<and> first_response = None then response else first_response)
            (forwarded @ [member_id]) rest)"

text \<open>\<open>_handle_all_servers_message\<close>; \<open>connections\<close> is \<open>server_manager.get_all_connections()\<close>.\<close>

definition handle_all_servers_message ::
  "('c \<Rightarrow> message \<Rightarrow> py_exc + json option) \<Rightarrow> (string \<times> 'c) list \<Rightarrow> message \<Rightarrow> json option \<times> string list"
where
  "handle_all_servers_message forward connections message =
     (if connections = [] then (None, [])
      else broadcast forward message None [] connections)"

text \<open>\<open>_handle_all_clients_message\<close>; \<open>clients\<close> is \<open>client_manager.get_all_mcp_clients()\<close>.\<close>

definition handle_all_clients_message ::
  "('c \<Rightarrow> message \<Rightarrow> py_exc + json option) \<Rightarrow> (string \<times> 'c) list \<Rightarrow> message \<Rightarrow> json option \<times> string list"
where
  "handle_all_clients_message forward clients message =
     (if clients = [] then (None, [])
      else broadcast forward message None [] clients)"

text \<open>
  \<open>_handle_capability_message\<close>; \<open>supports\<close> is \<open>connection.interface.has_capability\<close>
  and \<open>cap\<close> the destination's capability path.
\<close>

definition handle_capability_message ::
  "('c \<Rightarrow> message \<Rightarrow> py_exc + json option) \<Rightarrow> ('c \<Rightarrow> string \<Rightarrow> bool) \<Rightarrow> (string \<times> 'c) list
     \<Rightarrow> string \<Rightarrow> message \<Rightarrow> json option \<times> string list"
where
  "handle_capability_message forward supports connections cap message =
     (if connections = [] then (None, [])
      else
        let capable_servers = filter (\<lambda>(server_id, connection). supports connection cap) connections in
        if capable_servers = [] then (None, [])
        else broadcast forward message None [] capable_servers)"

text \<open>The internal-error response the router builds for a request (\<open>_create_error_response\<close>).\<close>

definition error_response :: "json \<Rightarrow> int \<Rightarrow> string \<Rightarrow> json" where
  "error_response request_id code message_text =
     JObj [(''jsonrpc'', JStr ''2.0''), (''id'', request_id),
           (''error'', JObj [(''code'', JNum code), (''message'', JStr message_text)])]"

text \<open>
  What \<open>_handle_hub_directed_message\<close> reads from the rest of the hub, and the
  authentication manager it calls. The manager is a parameter: its state has some type
  \<open>'a\<close>, and each operation returns its value (or the exception it raises) and the
  manager's new state.
\<close>

record hub_view =
  hub_running :: bool
  registered_servers :: "(string \<times> json) list"
  server_statuses :: "(string \<times> json) list"
  all_clients :: "(string \<times> json) list"
  mcp_server_count :: nat
  mcp_client_count :: nat

record 'a auth_ops =
  am_authenticate :: "'a \<Rightarrow> json \<Rightarrow> json \<Rightarrow> (py_exc + json) \<times> 'a"
  am_generate_token :: "'a \<Rightarrow> json \<Rightarrow> (py_exc + json) \<times> 'a"
  am_revoke_token :: "'a \<Rightarrow> json \<Rightarrow> (py_exc + json) \<times> 'a"
  am_validate_token :: "'a \<Rightarrow> json \<Rightarrow> (py_exc + json) \<times> 'a"

text \<open>The \<open>params\<close> of a message; \<open>.get\<close> on a value that is no dict raises.\<close>

definition message_params :: "message \<Rightarrow> py_exc + (string \<times> json) list" where
  "message_params message =
     (case dict_get message ''params'' (JObj []) of
        JObj params \<Rightarrow> Inr params
      | _ \<Rightarrow> Inl AttributeError)"

text \<open>\<open>HubManager._handle_hub_directed_message\<close>, branch by branch.\<close>

definition handle_hub_directed_message ::
  "'a auth_ops \<Rightarrow> hub_view \<Rightarrow> 'a \<Rightarrow> message \<Rightarrow> (py_exc + json option) \<times> 'a"
where
  "handle_hub_directed_message ops hub auth message =
     (let method = dict_get message ''method'' JNull;
          request_id = dict_get message ''id'' JNull
      in
      if \<not> truthy method then (Inr None, auth)
      else if method = JStr ''hub/status'' then
        (Inr (Some (JObj
           [(''id'', request_id),
            (''result'', JObj
               [(''status'', JStr (if hub_running hub then ''running'' else ''stopped'')),
                (''server_count'', JNum (int (length (registered_servers hub)))),
                (''client_count'', JNum (int (length (all_clients hub)))),
                (''mcp_server_count'', JNum (int (mcp_server_count hub))),
                (''mcp_client_count'', JNum (int (mcp_client_count hub)))])])), auth)
      else if method = JStr ''hub/servers'' then
        (Inr (Some (JObj
           [(''id'', request_id),
            (''result'', JObj [(''servers'', JObj (server_statuses hub))])])), auth)
      else if method = JStr ''hub/clients'' then
        (Inr (Some (JObj
           [(''id'', request_id),
            (''result'', JObj [(''clients'', JObj (all_clients hub))])])), auth)
      else if method = JStr ''auth/login'' then
        (case message_params message of
           Inl e \<Rightarrow> (Inl e, auth)
         | Inr params \<Rightarrow>
             (case am_authenticate ops auth (dict_get params ''credentials'' (JObj []))
                     (dict_get params ''provider'' JNull) of
                (Inl e, auth1) \<Rightarrow> (Inl e, auth1)
              | (Inr user_info, auth1) \<Rightarrow>
                  if truthy user_info then
                    (case am_generate_token ops auth1 user_info of
                       (Inl e, auth2) \<Rightarrow> (Inl e, auth2)
                     | (Inr token, auth2) \<Rightarrow>
                         (Inr (Some (JObj
                            [(''id'', request_id),
                             (''result'', JObj [(''token'', token), (''user'', user_info)])])), auth2))
                  else
                    (Inr (Some (JObj
                       [(''id'', request_id),
                        (''error'', JObj [(''code'', JNum (- 32000)),
                                          (''message'', JStr ''Authentication failed'')])])), auth1)))
      else if method = JStr ''auth/logout'' then
        (case message_params message of
           Inl e \<Rightarrow> (Inl e, auth)
         | Inr params \<Rightarrow>
             let token = dict_get params ''token'' JNull in
             if truthy token then
               (case am_revoke_token ops auth token of
                  (Inl e, auth1) \<Rightarrow> (Inl e, auth1)
                | (Inr success, auth1) \<Rightarrow>
                    (Inr (Some (JObj
                       [(''id'', request_id),
                        (''result'', JObj [(''success'', success)])])), auth1))
             else
               (Inr (Some (JObj
                  [(''id'', request_id),
                   (''error'', JObj [(''code'', JNum (- 32602)),
                                     (''message'', JStr ''Missing token parameter'')])])), auth))
      else if method = JStr ''auth/validate'' then
        (case message_params message of
           Inl e \<Rightarrow> (Inl e, auth)
         | Inr params \<Rightarrow>
             let token = dict_get params ''token'' JNull in
             if truthy token then
               (case am_validate_token ops auth token of
                  (Inl e, auth1) \<Rightarrow> (Inl e, auth1)
                | (Inr user_info, auth1) \<Rightarrow>
                    if truthy user_info then
                      (Inr (Some (JObj
                         [(''id'', request_id),
                          (''result'', JObj [(''valid'', JBool True), (''user'', user_info)])])), auth1)
                    else
                      (Inr (Some (JObj
                         [(''id'', request_id),
                          (''result'', JObj [(''valid'', JBool False)])])), auth1))
             else
               (Inr (Some (JObj
                  [(''id'', request_id),
                   (''error'', JObj [(''code'', JNum (- 32602)),
                                     (''message'', JStr ''Missing token parameter'')])])), auth))
      else (Inr None, auth))"


text \<open>An authentication manager without providers: nobody authenticates, no token is known.\<close>

abbreviation no_providers :: "unit auth_ops" where
  "no_providers \<equiv>
     \<lparr>am_authenticate = (\<lambda>a credentials provider. (Inr JNull, a)),
      am_generate_token = (\<lambda>a user_info. (Inr JNull, a)),
      am_revoke_token = (\<lambda>a token. (Inr (JBool False), a)),
      am_validate_token = (\<lambda>a token. (Inr JNull, a))\<rparr>"

abbreviation idle_hub :: hub_view where
  "idle_hub \<equiv>
     \<lparr>hub_running = True, registered_servers = [], server_statuses = [], all_clients = [],
      mcp_server_count = 0, mcp_client_count = 0\<rparr>"
text \<open>
  A member answers when forwarding to it returns a response that is true in Python;
  \<open>first_answer\<close> is the response of the first member, in the table's order, that answers.
\<close>

definition answers :: "('c \<Rightarrow> message \<Rightarrow> py_exc + json option) \<Rightarrow> message \<Rightarrow> 'c \<Rightarrow> bool" where
  "answers forward message member =
     (case forward member message of Inl e \<Rightarrow> False | Inr response \<Rightarrow> response_truthy response)"

definition first_answer ::
  "('c \<Rightarrow> message \<Rightarrow> py_exc + json option) \<Rightarrow> message \<Rightarrow> (string \<times> 'c) list \<Rightarrow> json option"
where
  "first_answer forward message members =
     (case find (\<lambda>entry. answers forward message (snd entry)) members of
        None \<Rightarrow> None
      | Some entry \<Rightarrow> (case forward (snd entry) message of Inl e \<Rightarrow> None | Inr response \<Rightarrow> response))"

text \<open>Members given by what forwarding to them does.\<close>

abbreviation outcome_of :: "(py_exc + json option) \<Rightarrow> message \<Rightarrow> py_exc + json option" where
  "outcome_of \<equiv> (\<lambda>member message. member)"

abbreviation ping :: message where
  "ping \<equiv> [(''jsonrpc'', JStr ''2.0''), (''id'', JStr ''9''), (''method'', JStr ''ping'')]"

section \<open>Protocol engine: stdio framing and dispatch (protocol/transport.py, protocol/base.py)\<close>

text \<open>Characters of the wire format.\<close>

abbreviation CR :: char where "CR \<equiv> CHR 0x0D"
abbreviation LF :: char where "LF \<equiv> CHR 0x0A"
abbreviation DQUOTE :: char where "DQUOTE \<equiv> CHR 0x22"
abbreviation BACKSLASH :: char where "BACKSLASH \<equiv> CHR 0x5C"

definition is_digit :: "char \<Rightarrow> bool" where
  "is_digit c = (48 \<le> (of_char c :: nat) \<and> (of_char c :: nat) \<le> 57)"

definition digit_val :: "char \<Rightarrow> nat" where
  "digit_val c = of_char c - 48"

subsection \<open>Stdio framing\<close>

text \<open>
  \<open>reader.readuntil(b'\r\n\r\n')\<close> on the bytes still to come: the data up to and
  including the separator, and what follows; \<open>None\<close> when the stream ends first
  (\<open>IncompleteReadError\<close>). The reader's buffer limit is not modelled.
\<close>

fun readuntil :: "string \<Rightarrow> string \<Rightarrow> (string \<times> string) option" where
  "readuntil seen [] = None"
| "readuntil seen (c # cs) =
     (if startswith (c # cs) [CR, LF, CR, LF] then Some (seen @ [CR, LF, CR, LF], drop 3 cs)
      else readuntil (seen @ [c]) cs)"

text \<open>\<open>header.split('\r\n')\<close>.\<close>

fun split_crlf :: "string \<Rightarrow> string list" where
  "split_crlf [] = [[]]"
| "split_crlf [c] = [[c]]"
| "split_crlf (c # d # cs) =
     (if c = CR \<and> d = LF then [] # split_crlf cs
      else (case split_crlf (d # cs) of [] \<Rightarrow> [[c]] | w # ws \<Rightarrow> (c # w) # ws))"

text \<open>
  Python's \<open>int(s)\<close> on text: surrounding whitespace, an optional sign, decimal digits
  with single underscores allowed between digits; \<open>None\<close> is \<open>ValueError\<close>. Digits
  outside ASCII are not modelled.
\<close>

definition is_space :: "char \<Rightarrow> bool" where
  "is_space c = (c \<in> {CHR '' '', CHR 0x09, LF, CHR 0x0B, CHR 0x0C, CR})"

definition strip :: "string \<Rightarrow> string" where
  "strip s = rev (dropWhile is_space (rev (dropWhile is_space s)))"

fun parse_digits :: "nat \<Rightarrow> bool \<Rightarrow> string \<Rightarrow> nat option" where
  "parse_digits acc after_digit [] = (if after_digit then Some acc else None)"
| "parse_digits acc after_digit (c # cs) =
     (if is_digit c then parse_digits (10 * acc + digit_val c) True cs
      else if c = CHR ''_'' \<and> after_digit \<and> cs \<noteq> [] then parse_digits acc False cs
      else None)"

definition py_int :: "string \<Rightarrow> int option" where
  "py_int s =
     (case strip s of
        [] \<Rightarrow> None
      | c # cs \<Rightarrow>
          if c = CHR ''-'' then map_option (\<lambda>n. - int n) (parse_digits 0 False cs)
          else if c = CHR ''+'' then map_option int (parse_digits 0 False cs)
          else map_option int (parse_digits 0 False (c # cs)))"

text \<open>
  One turn of the loop of \<open>StdioTransport.receive_messages\<close> on the bytes still to come:
  an exception that ends the generator, or the message yielded (\<open>None\<close> when the header
  has no Content-Length line and the loop continues) with the bytes left. The payload is
  kept as bytes; decoding it as UTF-8 is not modelled.
\<close>

definition receive_message :: "string \<Rightarrow> py_exc + (string option \<times> string)" where
  "receive_message stream =
     (case readuntil [] stream of
        None \<Rightarrow> Inl IncompleteReadError
      | Some (header, rest) \<Rightarrow>
          (case find (\<lambda>line. startswith line ''Content-Length: '') (split_crlf header) of
             None \<Rightarrow> Inr (None, rest)
           | Some line \<Rightarrow>
               (case py_int (drop 16 line) of
                  None \<Rightarrow> Inl ValueError
                | Some content_length \<Rightarrow>
                    if content_length < 0 then Inl ValueError
                    else if length rest < nat content_length then Inl IncompleteReadError
                    else Inr (Some (take (nat content_length) rest),
                              drop (nat content_length) rest))))"

subsection \<open>Dispatch\<close>

definition PARSE_ERROR :: int where "PARSE_ERROR = - 32700"
definition INVALID_REQUEST :: int where "INVALID_REQUEST = - 32600"
definition INTERNAL_ERROR :: int where "INTERNAL_ERROR = - 32603"

text \<open>
  What the dispatcher takes from Python: \<open>loads\<close> is \<open>json.loads\<close> on a payload (it
  raises \<open>JSONDecodeError\<close> or, rarely, something else) and \<open>exc_str\<close> is \<open>str(e)\<close>.
\<close>

record py_env =
  loads :: "string \<Rightarrow> py_exc + json"
  exc_str :: "py_exc \<Rightarrow> string"

text \<open>
  The dict \<open>{"jsonrpc": "2.0", "error": error.to_dict(), "id": None}\<close> for an error without
  data. \<open>handle_message\<close> returns \<open>json.dumps\<close> of such a dict; the model returns the dict.
\<close>

definition protocol_error :: "int \<Rightarrow> string \<Rightarrow> json" where
  "protocol_error code text =
     JObj [(''jsonrpc'', JStr ''2.0''),
           (''error'', JObj [(''code'', JNum code), (''message'', JStr text)]),
           (''id'', JNull)]"

text \<open>
  \<open>key in data\<close> for a decoded value: key membership in a dict, element membership in a
  list, substring test in a string; any other value raises \<open>TypeError\<close>.
\<close>

fun substring_of :: "string \<Rightarrow> string \<Rightarrow> bool" where
  "substring_of sub [] = (sub = [])"
| "substring_of sub (c # cs) = (startswith (c # cs) sub \<or> substring_of sub cs)"

definition py_in :: "string \<Rightarrow> json \<Rightarrow> py_exc + bool" where
  "py_in key data =
     (case data of
        JObj kvs \<Rightarrow> Inr (key \<in> fst ` set kvs)
      | JArr xs \<Rightarrow> Inr (JStr key \<in> set xs)
      | JStr s \<Rightarrow> Inr (substring_of key s)
      | _ \<Rightarrow> Inl TypeError)"

text \<open>
  \<open>Protocol.handle_message\<close>. Its three callees \<open>_handle_request\<close>,
  \<open>_handle_notification\<close> and \<open>_handle_response\<close> are parameters: each takes the protocol
  object (of some type \<open>'s\<close>) and the decoded message and gives back what it returns or
  raises, with the object afterwards. The first test of the chain evaluates
  \<open>"method" in data\<close>; when that does not raise, no later \<open>in\<close> on the same value does.
\<close>

definition handle_message ::
  "py_env \<Rightarrow> ('s \<Rightarrow> json \<Rightarrow> (py_exc + json) \<times> 's) \<Rightarrow> ('s \<Rightarrow> json \<Rightarrow> (py_exc + unit) \<times> 's)
     \<Rightarrow> ('s \<Rightarrow> json \<Rightarrow> (py_exc + unit) \<times> 's) \<Rightarrow> 's \<Rightarrow> string \<Rightarrow> json option \<times> 's"
where
  "handle_message env handle_request handle_notification handle_response self message =
     (case loads env message of
        Inl e \<Rightarrow>
          if e = JSONDecodeError then (Some (protocol_error PARSE_ERROR ''Invalid JSON''), self)
          else (Some (protocol_error INTERNAL_ERROR (''Internal error: '' @ exc_str env e)), self)
      | Inr data \<Rightarrow>
          (case (py_in ''method'' data, py_in ''id'' data, py_in ''result'' data, py_in ''error'' data) of
             (Inr has_method, Inr has_id, Inr has_result, Inr has_error) \<Rightarrow>
               if has_method \<and> has_id then
                 (case handle_request self data of
                    (Inl e, self') \<Rightarrow>
                      (Some (protocol_error INTERNAL_ERROR (''Internal error: '' @ exc_str env e)), self')
                  | (Inr response, self') \<Rightarrow> (Some response, self'))
               else if has_method \<and> \<not> has_id then
                 (case handle_notification self data of
                    (Inl e, self') \<Rightarrow>
                      (Some (protocol_error INTERNAL_ERROR (''Internal error: '' @ exc_str env e)), self')
                  | (Inr _, self') \<Rightarrow> (None, self'))
               else if has_id \<and> (has_result \<or> has_error) then
                 (case handle_response self data of
                    (Inl e, self') \<Rightarrow>
                      (Some (protocol_error INTERNAL_ERROR (''Internal error: '' @ exc_str env e)), self')
                  | (Inr _, self') \<Rightarrow> (None, self'))
               else (Some (protocol_error INVALID_REQUEST ''Invalid message format''), self)
           | _ \<Rightarrow>
               (Some (protocol_error INTERNAL_ERROR (''Internal error: '' @ exc_str env TypeError)), self)))"

subsection \<open>A JSON decoder\<close>

text \<open>
  A decoder for JSON documents made of objects, arrays, strings with the one-letter
  escapes, integers and the three literals \<open>null\<close>, \<open>true\<close>, \<open>false\<close>: what
  \<open>json.loads\<close> does on such documents, and on the empty text. Fractions, exponents,
  \<open>\u\<close> escapes and the literals \<open>NaN\<close> and \<open>Infinity\<close> are outside it (this
  decoder rejects them, \<open>json.loads\<close> does not). A repeated key keeps its place and
  takes the last value, as in a Python dict. The recursion is bounded by fuel;
  \<open>json_loads\<close> gives it more than the text can use.
\<close>

fun skip_ws :: "string \<Rightarrow> string" where
  "skip_ws [] = []"
| "skip_ws (c # cs) = (if c \<in> {CHR '' '', CHR 0x09, LF, CR} then skip_ws cs else c # cs)"

definition unescape :: "char \<Rightarrow> char option" where
  "unescape c =
     (if c = DQUOTE then Some DQUOTE
      else if c = BACKSLASH then Some BACKSLASH
      else if c = CHR ''/'' then Some CHR ''/''
      else if c = CHR ''b'' then Some (CHR 0x08)
      else if c = CHR ''f'' then Some (CHR 0x0C)
      else if c = CHR ''n'' then Some LF
      else if c = CHR ''r'' then Some CR
      else if c = CHR ''t'' then Some (CHR 0x09)
      else None)"

fun scan_string :: "string \<Rightarrow> string \<Rightarrow> (string \<times> string) option" where
  "scan_string acc [] = None"
| "scan_string acc [c] = (if c = DQUOTE then Some (acc, []) else None)"
| "scan_string acc (c # d # cs) =
     (if c = DQUOTE then Some (acc, d # cs)
      else if c = BACKSLASH then
        (case unescape d of None \<Rightarrow> None | Some u \<Rightarrow> scan_string (acc @ [u]) cs)
      else if (of_char c :: nat) < 32 then None
      else scan_string (acc @ [c]) (d # cs))"

definition scan_number :: "string \<Rightarrow> (json \<times> string) option" where
  "scan_number s =
     (let negative = (s \<noteq> [] \<and> hd s = CHR ''-'');
          body = (if negative then tl s else s)
      in
      case body of
        [] \<Rightarrow> None
      | d # ds \<Rightarrow>
          if \<not> is_digit d then None
          else
            let digits = (if d = CHR ''0'' then [d] else takeWhile is_digit body);
                rest = drop (length digits) body;
                n = int (foldl (\<lambda>n c. 10 * n + digit_val c) 0 digits)
            in
            if rest \<noteq> [] \<and> hd rest \<in> {CHR ''.'', CHR ''e'', CHR ''E''} then None
            else Some (JNum (if negative then - n else n), rest))"

fun parse_value :: "nat \<Rightarrow> string \<Rightarrow> (json \<times> string) option"
  and parse_elements :: "nat \<Rightarrow> json list \<Rightarrow> string \<Rightarrow> (json \<times> string) option"
  and parse_members :: "nat \<Rightarrow> (string \<times> json) list \<Rightarrow> string \<Rightarrow> (json \<times> string) option"
where
  "parse_value 0 s = None"
| "parse_value (Suc fuel) s =
     (case skip_ws s of
        [] \<Rightarrow> None
      | c # cs \<Rightarrow>
          if c = CHR ''{'' then
            (case skip_ws cs of
               [] \<Rightarrow> None
             | d # ds \<Rightarrow> if d = CHR ''}'' then Some (JObj [], ds) else parse_members fuel [] cs)
          else if c = CHR ''['' then
            (case skip_ws cs of
               [] \<Rightarrow> None
             | d # ds \<Rightarrow> if d = CHR '']'' then Some (JArr [], ds) else parse_elements fuel [] cs)
          else if c = DQUOTE then
            (case scan_string [] cs of None \<Rightarrow> None | Some (str, rest) \<Rightarrow> Some (JStr str, rest))
          else if startswith (c # cs) ''null'' then Some (JNull, drop 3 cs)
          else if startswith (c # cs) ''true'' then Some (JBool True, drop 3 cs)
          else if startswith (c # cs) ''false'' then Some (JBool False, drop 4 cs)
          else scan_number (c # cs))"
| "parse_elements 0 acc s = None"
| "parse_elements (Suc fuel) acc s =
     (case parse_value fuel s of
        None \<Rightarrow> None
      | Some (v, rest) \<Rightarrow>
          (case skip_ws rest of
             [] \<Rightarrow> None
           | c # cs \<Rightarrow>
               if c = CHR '','' then parse_elements fuel (acc @ [v]) cs
               else if c = CHR '']'' then Some (JArr (acc @ [v]), cs)
               else None))"
| "parse_members 0 acc s = None"
| "parse_members (Suc fuel) acc s =
     (case skip_ws s of
        [] \<Rightarrow> None
      | q # qs \<Rightarrow>
          if q \<noteq> DQUOTE then None
          else
            (case scan_string [] qs of
               None \<Rightarrow> None
             | Some (key, after_key) \<Rightarrow>
                 (case skip_ws after_key of
                    [] \<Rightarrow> None
                  | c # cs \<Rightarrow>
                      if c \<noteq> CHR '':'' then None
                      else
                        (case parse_value fuel cs of
                           None \<Rightarrow> None
                         | Some (v, rest) \<Rightarrow>
                             (case skip_ws rest of
                                [] \<Rightarrow> None
                              | e # es \<Rightarrow>
                                  if e = CHR '','' then parse_members fuel (dict_set key v acc) es
                                  else if e = CHR ''}'' then Some (JObj (dict_set key v acc), es)
                                  else None)))))"

definition json_loads :: "string \<Rightarrow> py_exc + json" where
  "json_loads s =
     (case parse_value (2 * length s + 2) s of
        None \<Rightarrow> Inl JSONDecodeError
      | Some (v, rest) \<Rightarrow> if skip_ws rest = [] then Inr v else Inl JSONDecodeError)"

text \<open>An environment with this decoder, and callees that are never reached below.\<close>

abbreviation std_env :: py_env where
  "std_env \<equiv> \<lparr>loads = json_loads, exc_str = (\<lambda>e. ''error'')\<rparr>"

abbreviation no_request :: "unit \<Rightarrow> json \<Rightarrow> (py_exc + json) \<times> unit" where
  "no_request \<equiv> (\<lambda>self data. (Inr (JObj []), self))"

abbreviation no_notice :: "unit \<Rightarrow> json \<Rightarrow> (py_exc + unit) \<times> unit" where
  "no_notice \<equiv> (\<lambda>self data. (Inr (), self))"

section \<open>Routing a message through the hub (router/router.py, hub/manager.py)\<close>

subsection \<open>The hub's handlers by target\<close>

text \<open>
  What the handlers read of the hub: the connection tables of the server manager and of
  the client manager (dicts, in insertion order), what forwarding a message to a
  connection does (\<open>connection.interface.forward_message\<close>: it raises or returns),
  whether a connection's interface is initialized and what its \<open>has_capability\<close>
  answers to a capability path, the hub's status tables and the authentication manager.
\<close>

record ('c, 'a) hub_parts =
  server_table :: "(string \<times> 'c) list"
  client_table :: "(string \<times> 'c) list"
  forward_to :: "'c \<Rightarrow> message \<Rightarrow> py_exc + json option"
  is_initialized :: "'c \<Rightarrow> bool"
  capable :: "'c \<Rightarrow> string \<Rightarrow> bool"
  status_view :: hub_view
  auth_operations :: "'a auth_ops"

text \<open>
  A message handler, \<open>handler(message, source, destination)\<close>. It raises or returns a
  response or \<open>None\<close>; the model also returns the ids of the connections the message was
  forwarded to, in order, and the state of the authentication manager, which it takes as
  its last argument.
\<close>

type_synonym 'a handler =
  "message \<Rightarrow> RouteTarget \<Rightarrow> RouteTarget \<Rightarrow> 'a \<Rightarrow> (py_exc + json option) \<times> string list \<times> 'a"

text \<open>
  \<open>server_manager.get_connection(id)\<close> and \<open>client_manager.get_mcp_client(id)\<close> are
  \<open>self.connections.get(id)\<close>; the ids in the table are strings, so \<open>None\<close> is not found.
\<close>

definition table_get :: "(string \<times> 'c) list \<Rightarrow> string option \<Rightarrow> 'c option" where
  "table_get table key = (case key of None \<Rightarrow> None | Some k \<Rightarrow> map_of table k)"

text \<open>
  Forwarding to one connection, as the handlers do it in four places:
  \<^verbatim>\<open>
  member = table.get(destination.target_id)
  if not member:
      return None
  return await member.interface.forward_message(message)
  \<close>
\<close>

definition forward_one ::
  "('c, 'a) hub_parts \<Rightarrow> (string \<times> 'c) list \<Rightarrow> string option \<Rightarrow> message \<Rightarrow> 'a
     \<Rightarrow> (py_exc + json option) \<times> string list \<times> 'a"
where
  "forward_one parts table key message auth_state =
     (case key of
        None \<Rightarrow> (Inr None, [], auth_state)
      | Some k \<Rightarrow>
          (case map_of table k of
             None \<Rightarrow> (Inr None, [], auth_state)
           | Some member \<Rightarrow> (forward_to parts member message, [k], auth_state)))"

text \<open>A handler that does not touch the authentication manager and catches what forwarding raises.\<close>

definition stateless :: "json option \<times> string list \<Rightarrow> 'a \<Rightarrow> (py_exc + json option) \<times> string list \<times> 'a" where
  "stateless outcome auth_state = (Inr (fst outcome), snd outcome, auth_state)"

text \<open>\<open>_handle_hub_directed_message\<close> as a step of this shape: it forwards to nobody.\<close>

definition hub_directed ::
  "('c, 'a) hub_parts \<Rightarrow> message \<Rightarrow> 'a \<Rightarrow> (py_exc + json option) \<times> string list \<times> 'a"
where
  "hub_directed parts message auth_state =
     (case handle_hub_directed_message (auth_operations parts) (status_view parts) auth_state message of
        (outcome, auth_state') \<Rightarrow> (outcome, [], auth_state'))"

text \<open>
  \<open>_handle_server_message\<close>: the source's id is looked up among the server connections
  first; then the destination's type decides. The broadcast to all clients is the loop of
  \<open>_handle_all_clients_message\<close>, written out again in the source.
\<close>

definition handle_server_message :: "('c, 'a) hub_parts \<Rightarrow> 'a handler" where
  "handle_server_message parts message src dst auth_state =
     (case table_get (server_table parts) (target_id src) of
        None \<Rightarrow> (Inr None, [], auth_state)
      | Some connection \<Rightarrow>
          if route_type dst = CLIENT then
            forward_one parts (client_table parts) (target_id dst) message auth_state
          else if route_type dst = ALL_CLIENTS then
            stateless (handle_all_clients_message (forward_to parts) (client_table parts) message) auth_state
          else if route_type dst = HUB then
            hub_directed parts message auth_state
          else (Inr None, [], auth_state))"

text \<open>\<open>_handle_client_message\<close>: the source's id is looked up among the client connections.\<close>

definition handle_client_message :: "('c, 'a) hub_parts \<Rightarrow> 'a handler" where
  "handle_client_message parts message src dst auth_state =
     (case table_get (client_table parts) (target_id src) of
        None \<Rightarrow> (Inr None, [], auth_state)
      | Some client \<Rightarrow>
          if route_type dst = SERVER then
            forward_one parts (server_table parts) (target_id dst) message auth_state
          else if route_type dst = ALL_SERVERS then
            stateless (handle_all_servers_message (forward_to parts) (server_table parts) message) auth_state
          else if route_type dst = HUB then
            hub_directed parts message auth_state
          else (Inr None, [], auth_state))"

text \<open>
  \<open>_handle_hub_message\<close>, ``a message from the hub to a specific destination'': it has
  branches for the destination types SERVER, CLIENT, ALL_SERVERS and ALL_CLIENTS, and
  for every other type
  \<^verbatim>\<open>
  else:
      logger.warning(f"Unsupported destination type for hub message: {destination.route_type}")
      return None
  \<close>
\<close>

definition handle_hub_message :: "('c, 'a) hub_parts \<Rightarrow> 'a handler" where
  "handle_hub_message parts message src dst auth_state =
     (if route_type dst = SERVER then
        forward_one parts (server_table parts) (target_id dst) message auth_state
      else if route_type dst = CLIENT then
        forward_one parts (client_table parts) (target_id dst) message auth_state
      else if route_type dst = ALL_SERVERS then
        stateless (handle_all_servers_message (forward_to parts) (server_table parts) message) auth_state
      else if route_type dst = ALL_CLIENTS then
        stateless (handle_all_clients_message (forward_to parts) (client_table parts) message) auth_state
      else (Inr None, [], auth_state))"

text \<open>
  \<open>_handle_capability_message\<close> as a handler. A CAPABILITY target built by \<open>RouteTarget\<close>
  carries a capability; for one without, \<open>has_capability(None)\<close> returns false on an
  interface that is not initialized and raises at \<open>None.split\<close> on one that is.
\<close>

definition handle_capability_target :: "('c, 'a) hub_parts \<Rightarrow> 'a handler" where
  "handle_capability_target parts message src dst auth_state =
     (case capability dst of
        Some cap \<Rightarrow>
          stateless (handle_capability_message (forward_to parts) (capable parts) (server_table parts)
                       cap message) auth_state
      | None \<Rightarrow>
          if \<exists>entry \<in> set (server_table parts). is_initialized parts (snd entry)
          then (Inl AttributeError, [], auth_state)
          else (Inr None, [], auth_state))"

text \<open>
  \<open>MessageRouter.register_message_handler\<close> and \<open>HubManager._setup_message_handlers\<close>: the
  table is keyed by route type, and the router reads it at the type of a route's
  destination.
  \<^verbatim>\<open>
  self.router.register_message_handler(RouteType.SERVER, self._handle_server_message)
  self.router.register_message_handler(RouteType.CLIENT, self._handle_client_message)
  self.router.register_message_handler(RouteType.HUB, self._handle_hub_message)
  self.router.register_message_handler(RouteType.ALL_SERVERS, self._handle_all_servers_message)
  self.router.register_message_handler(RouteType.ALL_CLIENTS, self._handle_all_clients_message)
  self.router.register_message_handler(RouteType.CAPABILITY, self._handle_capability_message)
  \<close>
\<close>

definition register_message_handler ::
  "(RouteType \<rightharpoonup> 'a handler) \<Rightarrow> RouteType \<Rightarrow> 'a handler \<Rightarrow> (RouteType \<rightharpoonup> 'a handler)"
where
  "register_message_handler message_handlers rt handler = message_handlers(rt \<mapsto> handler)"

definition setup_message_handlers :: "('c, 'a) hub_parts \<Rightarrow> (RouteType \<rightharpoonup> 'a handler)" where
  "setup_message_handlers parts =
     register_message_handler
       (register_message_handler
          (register_message_handler
             (register_message_handler
                (register_message_handler
                   (register_message_handler Map.empty
                      SERVER (handle_server_message parts))
                   CLIENT (handle_client_message parts))
                HUB (handle_hub_message parts))
             ALL_SERVERS
             (\<lambda>message src dst.
                stateless (handle_all_servers_message (forward_to parts) (server_table parts) message)))
          ALL_CLIENTS
          (\<lambda>message src dst.
             stateless (handle_all_clients_message (forward_to parts) (client_table parts) message)))
       CAPABILITY (handle_capability_target parts)"

subsection \<open>The router\<close>

text \<open>
  What Python's \<open>str\<close> gives for a JSON value that is no string (in an f-string) and for
  an exception.
\<close>

record router_env =
  value_str :: "json \<Rightarrow> string"
  error_str :: "py_exc \<Rightarrow> string"

definition METHOD_NOT_FOUND :: int where "METHOD_NOT_FOUND = - 32601"

text \<open>\<open>RouteTarget.__str__\<close>; an absent id or capability prints as \<open>None\<close>.\<close>

definition RouteTarget_str :: "RouteTarget \<Rightarrow> string" where
  "RouteTarget_str self =
     (case route_type self of
        SERVER \<Rightarrow> ''SERVER:'' @ (case target_id self of None \<Rightarrow> ''None'' | Some i \<Rightarrow> i)
      | CLIENT \<Rightarrow> ''CLIENT:'' @ (case target_id self of None \<Rightarrow> ''None'' | Some i \<Rightarrow> i)
      | ALL_SERVERS \<Rightarrow> ''ALL_SERVERS''
      | ALL_CLIENTS \<Rightarrow> ''ALL_CLIENTS''
      | CAPABILITY \<Rightarrow> ''CAPABILITY:'' @ (case capability self of None \<Rightarrow> ''None'' | Some c \<Rightarrow> c)
      | HUB \<Rightarrow> ''HUB'')"

text \<open>
  \<open>_create_error_response\<close>: an error response for a message with an \<open>id\<close>, \<open>None\<close> for
  a notification.
\<close>

definition create_error_response :: "message \<Rightarrow> int \<Rightarrow> string \<Rightarrow> json option" where
  "create_error_response message code message_text =
     (case map_of message ''id'' of
        None \<Rightarrow> None
      | Some request_id \<Rightarrow> Some (error_response request_id code message_text))"

text \<open>
  The router passes \<open>message["method"]\<close> to the lookup as it is, whatever JSON value it
  holds. \<open>Route.matches_method\<close> on such a value: a string goes through the tests above;
  another value fails the comparison with the pattern and raises where the source calls
  \<open>method.startswith\<close>.
\<close>

definition matches_method_json :: "Route \<Rightarrow> json \<Rightarrow> py_exc + bool" where
  "matches_method_json self method =
     (case method of
        JStr m \<Rightarrow> Inr (matches_method self m)
      | _ \<Rightarrow>
          (case method_pattern self of
             None \<Rightarrow> Inr True
           | Some pattern \<Rightarrow>
               if pattern = [] then Inr True
               else if endswith pattern ''/*'' then Inl AttributeError
               else if endswith pattern ''*'' then Inl AttributeError
               else if CHR ''*'' \<in> set pattern
               then (if length (split_sep CHR ''*'' pattern) = 2 then Inl AttributeError else Inr False)
               else Inr False))"

text \<open>A list comprehension \<open>[x for x in xs if test(x)]\<close> whose test may raise.\<close>

fun filter_raising :: "('x \<Rightarrow> py_exc + bool) \<Rightarrow> 'x list \<Rightarrow> py_exc + 'x list" where
  "filter_raising test [] = Inr []"
| "filter_raising test (x # xs) =
     (case test x of
        Inl e \<Rightarrow> Inl e
      | Inr keep \<Rightarrow>
          (case filter_raising test xs of
             Inl e \<Rightarrow> Inl e
           | Inr kept \<Rightarrow> Inr (if keep then x # kept else kept)))"

text \<open>
  \<open>MessageRouter.get_matching_routes\<close> on the method as the message holds it: the same
  three stages as above, the last one with the test that may raise.
\<close>

definition get_matching_routes_json :: "Route list \<Rightarrow> RouteTarget \<Rightarrow> json \<Rightarrow> py_exc + Route list" where
  "get_matching_routes_json routes_iter src method =
     (let source_type_matches =
            filter (\<lambda>route. route_type (source route) = route_type src) routes_iter
      in
      if source_type_matches = [] then Inr []
      else
        let source_matches =
              (if route_type src \<in> {SERVER, CLIENT} \<and> target_id src \<noteq> None
               then filter (\<lambda>route. target_id (source route) = target_id src) source_type_matches
               else if route_type src = CAPABILITY \<and> capability src \<noteq> None
               then filter (\<lambda>route. capability (source route) = capability src) source_type_matches
               else source_type_matches)
        in
        if source_matches = [] then Inr []
        else filter_raising (\<lambda>route. matches_method_json route method) source_matches)"

text \<open>
  The notification branch of \<open>route_message\<close>: one task per matching route whose
  destination type has a handler; \<open>_handle_notification\<close> drops the handler's result and
  catches what it raises. The tasks run in the background; the model runs them one after
  the other, in the order in which they were created.
\<close>

fun notify_all ::
  "(RouteType \<rightharpoonup> 'a handler) \<Rightarrow> message \<Rightarrow> RouteTarget \<Rightarrow> Route list \<Rightarrow> string list \<Rightarrow> 'a
     \<Rightarrow> string list \<times> 'a"
where
  "notify_all message_handlers message src [] sent auth_state = (sent, auth_state)"
| "notify_all message_handlers message src (route # rest) sent auth_state =
     (case message_handlers (route_type (destination route)) of
        None \<Rightarrow> notify_all message_handlers message src rest sent auth_state
      | Some handler \<Rightarrow>
          (case handler message src (destination route) auth_state of
             (outcome, sent', auth_state') \<Rightarrow>
               notify_all message_handlers message src rest (sent @ sent') auth_state'))"

text \<open>
  \<open>MessageRouter.route_message\<close>. The result is what the caller gets, a response or
  \<open>None\<close>, with the ids forwarded to and the authentication manager's state.
  \<^verbatim>\<open>
  try:
      if "method" not in message:
          return self._create_error_response(message, ErrorCode.INVALID_REQUEST, "Missing method")
      method = message["method"]
      matching_routes = self.get_matching_routes(source, method)
      if not matching_routes:
          return self._create_error_response(message, ErrorCode.METHOD_NOT_FOUND,
                                             f"Method not found: {method}")
      is_request = "id" in message
      if is_request:
          route = matching_routes[0]
          destination = route.destination
          handler = self.message_handlers.get(destination.route_type)
          if not handler:
              return self._create_error_response(message, ErrorCode.INTERNAL_ERROR,
                                                 f"No handler for destination: {destination}")
          try:
              return await handler(message, source, destination)
          except Exception as e:
              return self._create_error_response(message, ErrorCode.INTERNAL_ERROR,
                                                 f"Internal error: {str(e)}")
      else:
          ...  # one task per matching route
          return None
  except Exception as e:
      return self._create_error_response(message, ErrorCode.INTERNAL_ERROR,
                                         f"Internal error: {str(e)}")
  \<close>
\<close>

definition route_message ::
  "router_env \<Rightarrow> Route list \<Rightarrow> (RouteType \<rightharpoonup> 'a handler) \<Rightarrow> message \<Rightarrow> RouteTarget \<Rightarrow> 'a
     \<Rightarrow> json option \<times> string list \<times> 'a"
where
  "route_message env routes_iter message_handlers message src auth_state =
     (case map_of message ''method'' of
        None \<Rightarrow> (create_error_response message INVALID_REQUEST ''Missing method'', [], auth_state)
      | Some method \<Rightarrow>
          (case get_matching_routes_json routes_iter src method of
             Inl e \<Rightarrow>
               (create_error_response message INTERNAL_ERROR (''Internal error: '' @ error_str env e),
                [], auth_state)
           | Inr [] \<Rightarrow>
               (create_error_response message METHOD_NOT_FOUND
                  (''Method not found: '' @ (case method of JStr m \<Rightarrow> m | _ \<Rightarrow> value_str env method)),
                [], auth_state)
           | Inr (route # others) \<Rightarrow>
               if map_of message ''id'' \<noteq> None then
                 (case message_handlers (route_type (destination route)) of
                    None \<Rightarrow>
                      (create_error_response message INTERNAL_ERROR
                         (''No handler for destination: '' @ RouteTarget_str (destination route)),
                       [], auth_state)
                  | Some handler \<Rightarrow>
                      (case handler message src (destination route) auth_state of
                         (Inr response, sent, auth_state') \<Rightarrow> (response, sent, auth_state')
                       | (Inl e, sent, auth_state') \<Rightarrow>
                           (create_error_response message INTERNAL_ERROR
                              (''Internal error: '' @ error_str env e),
                            sent, auth_state')))
               else
                 (case notify_all message_handlers message src (route # others) [] auth_state of
                    (sent, auth_state') \<Rightarrow> (None, sent, auth_state'))))"

text \<open>
  \<open>HubManager.route_message\<close>, the hub's entry point: it builds the source target and
  hands the message to the router. A SERVER or CLIENT source needs an id; the other
  sources are built without one, and \<open>RouteTarget\<close> refuses a CAPABILITY source so built.
\<close>

definition HubManager_route_message ::
  "router_env \<Rightarrow> Route list \<Rightarrow> ('c, 'a) hub_parts \<Rightarrow> message \<Rightarrow> RouteType \<Rightarrow> string option \<Rightarrow> 'a
     \<Rightarrow> py_exc + json option \<times> string list \<times> 'a"
where
  "HubManager_route_message env routes_iter parts message source_type source_id auth_state =
     (if source_type \<in> {SERVER, CLIENT} then
        (if source_id = None \<or> source_id = Some [] then Inr (None, [], auth_state)
         else
           (case RouteTarget_new source_type source_id None of
              Inl e \<Rightarrow> Inl e
            | Inr src \<Rightarrow>
                Inr (route_message env routes_iter (setup_message_handlers parts) message src auth_state)))
      else
        (case RouteTarget_new source_type None None of
           Inl e \<Rightarrow> Inl e
         | Inr src \<Rightarrow>
             Inr (route_message env routes_iter (setup_message_handlers parts) message src auth_state)))"

text \<open>
  A hub without connections and without authentication providers, and a request for a
  method the hub does not implement.
\<close>

abbreviation bare_hub :: "(unit, unit) hub_parts" where
  "bare_hub \<equiv>
     \<lparr>server_table = [], client_table = [], forward_to = (\<lambda>member message. Inr None),
      is_initialized = (\<lambda>member. False), capable = (\<lambda>member cap. False),
      status_view = idle_hub, auth_operations = no_providers\<rparr>"


text \<open>An environment whose strings are never read below, and a route of client \<open>c1\<close> to the hub.\<close>

abbreviation router_std_env :: router_env where
  "router_std_env \<equiv> \<lparr>value_str = (\<lambda>v. ''value''), error_str = (\<lambda>e. ''error'')\<rparr>"


section \<open>Theorems\<close>

subsection \<open>Capability queries of the client role\<close>

lemma descend_snoc:
  "descend t (ks @ [k]) =
     (case descend t ks of
        Some (JObj kvs) \<Rightarrow> map_of kvs k
      | _ \<Rightarrow> None)"
  by (induction ks arbitrary: t) (auto split: json.splits option.splits)

lemma capability_walk_descend: "capability_walk t ks = (descend t ks \<noteq> None)"
  by (induction ks arbitrary: t) (auto split: json.splits option.splits)

lemma descend_take_all:
  "descend t ks \<noteq> None \<Longrightarrow> i < length ks \<Longrightarrow> key_present_at t ks i"
proof (induction ks arbitrary: t i)
  case Nil
  then show ?case by simp
next
  case (Cons k ks)
  then obtain kvs v where t: "t = JObj kvs" and v: "map_of kvs k = Some v"
    and rest: "descend v ks \<noteq> None"
    by (auto split: json.splits option.splits)
  show ?case
  proof (cases i)
    case 0
    with t v show ?thesis
      by (auto simp: key_present_at_def dest: map_of_SomeD intro: rev_image_eqI)
  next
    case (Suc j)
    with Cons.prems have "j < length ks" by simp
    from Cons.IH [OF rest this] show ?thesis
      using t v Suc by (auto simp: key_present_at_def split: option.splits json.splits)
  qed
qed

lemma keys_present_descend:
  "(\<And>i. i < length ks \<Longrightarrow> key_present_at t ks i) \<Longrightarrow> descend t ks \<noteq> None"
proof (induction ks rule: rev_induct)
  case Nil
  then show ?case by simp
next
  case (snoc k ks)
  have "key_present_at t ks i" if "i < length ks" for i
    using snoc.prems [of i] that
    by (auto simp: key_present_at_def nth_append split: option.splits json.splits)
  then have "descend t ks \<noteq> None" by (rule snoc.IH)
  moreover have "key_present_at t (ks @ [k]) (length ks)"
    using snoc.prems [of "length ks"] by simp
  ultimately show ?case
    by (auto simp: descend_snoc key_present_at_def
             split: option.splits json.splits dest: weak_map_of_SomeI)
qed

text \<open>
  C10, as stated, fails on an instance whose initialization has not completed. The
  server answers the \<open>initialize\<close> request with \<open>{"capabilities": {"resources": {}}}\<close>,
  the instance stores that tree, and sending the \<open>initialized\<close> notification fails:
  \<open>resources\<close> is a key of the stored tree, and \<open>has_capability("resources")\<close> is false.
\<close>

theorem has_capability_uninitialized_counterexample:
  "fst (client_run
     [Initialize (JObj []) (Inr (JObj [(''capabilities'', JObj [(''resources'', JObj [])])]))
        (Inl (OtherException ''connection lost''))])
     = \<lparr>initialized = False, server_capabilities = JObj [(''resources'', JObj [])],
        client_capabilities = JObj [],
        server_info = JObj [(''capabilities'', JObj [(''resources'', JObj [])])]\<rparr>
   \<and> split_sep CHR ''.'' ''resources'' = [''resources'']
   \<and> key_present_at (JObj [(''resources'', JObj [])]) [''resources''] 0
   \<and> \<not> has_capability
        \<lparr>initialized = False, server_capabilities = JObj [(''resources'', JObj [])],
         client_capabilities = JObj [],
         server_info = JObj [(''capabilities'', JObj [(''resources'', JObj [])])]\<rparr> ''resources''"
  by (simp add: client_run_def initialize_def ClientProtocol_init_def get_capabilities_def
        key_present_at_def has_capability_def)

text \<open>
  C10, amended: on a client protocol whose initialization has completed,
  \<open>has_capability\<close> is true exactly when every component of the dot-separated path is a
  key of the dict reached along the components before it, whatever value the last key
  holds; so a capability declared as \<open>{"resources": false}\<close> is reported as supported.
  While initialization has not completed it is false, whatever the stored tree holds.
\<close>

theorem has_capability_key_presence:
  "(initialized self \<longrightarrow>
      has_capability self path =
        (\<forall>i < length (split_sep CHR ''.'' path).
           key_present_at (server_capabilities self) (split_sep CHR ''.'' path) i))
   \<and> (\<not> initialized self \<longrightarrow> \<not> has_capability self path)
   \<and> has_capability
         (ClientProtocol_init\<lparr>initialized := True,
            server_capabilities := JObj [(''resources'', JBool False)]\<rparr>) ''resources''"
proof (intro conjI impI)
  assume "initialized self"
  then show "has_capability self path =
       (\<forall>i < length (split_sep CHR ''.'' path).
          key_present_at (server_capabilities self) (split_sep CHR ''.'' path) i)"
    using descend_take_all keys_present_descend
    by (auto simp: has_capability_def capability_walk_descend)
next
  assume "\<not> initialized self"
  then show "\<not> has_capability self path" by (simp add: has_capability_def)
next
  show "has_capability
         (ClientProtocol_init\<lparr>initialized := True,
            server_capabilities := JObj [(''resources'', JBool False)]\<rparr>) ''resources''"
    by (simp add: has_capability_def ClientProtocol_init_def)
qed

theorem has_capability_key_presence_witness:
  "initialized
     (ClientProtocol_init\<lparr>initialized := True,
        server_capabilities := JObj [(''resources'', JObj [(''subscriptions'', JBool True)])]\<rparr>)
   \<and> has_capability
     (ClientProtocol_init\<lparr>initialized := True,
        server_capabilities := JObj [(''resources'', JObj [(''subscriptions'', JBool True)])]\<rparr>)
     ''resources.subscriptions''
   \<and> \<not> has_capability
     (ClientProtocol_init\<lparr>initialized := True,
        server_capabilities := JObj [(''resources'', JObj [(''subscriptions'', JBool True)])]\<rparr>)
     ''resources.templates''
   \<and> \<not> has_capability
     (ClientProtocol_init\<lparr>server_capabilities := JObj [(''resources'', JObj [])]\<rparr>) ''resources''"
  using has_capability_key_presence
    [of "ClientProtocol_init\<lparr>initialized := True,
        server_capabilities := JObj [(''resources'', JObj [(''subscriptions'', JBool True)])]\<rparr>"
        "''resources.subscriptions''"]
    has_capability_key_presence
    [of "ClientProtocol_init\<lparr>initialized := True,
        server_capabilities := JObj [(''resources'', JObj [(''subscriptions'', JBool True)])]\<rparr>"
        "''resources.templates''"]
    has_capability_key_presence
    [of "ClientProtocol_init\<lparr>server_capabilities := JObj [(''resources'', JObj [])]\<rparr>"
        "''resources''"]
  by (simp add: key_present_at_def less_Suc_eq numeral_2_eq_2 all_conj_distrib
        ClientProtocol_init_def)

lemma negotiated_inv_step: "negotiated_inv p \<Longrightarrow> negotiated_inv (client_step p c)"
proof (cases p)
  case (Pair self answer)
  assume "negotiated_inv p"
  with Pair show ?thesis
    by (cases c)
       (auto simp: negotiated_inv_def initialize_def disconnect_def shutdown_def Let_def
             split: sum.splits json.splits)
qed

lemma negotiated_inv_foldl: "negotiated_inv p \<Longrightarrow> negotiated_inv (foldl client_step p calls)"
  by (induction calls arbitrary: p) (simp_all add: negotiated_inv_step)

lemma negotiated_inv_run: "negotiated_inv (client_run calls)"
  unfolding client_run_def
  by (rule negotiated_inv_foldl) (simp add: negotiated_inv_def ClientProtocol_init_def)

lemma handshake_agrees_step:
  "handshake_agrees (fst p) n \<Longrightarrow> handshake_agrees (fst (client_step p c)) (handshake_step n c)"
proof (cases p)
  case (Pair self answer)
  assume "handshake_agrees (fst p) n"
  with Pair show ?thesis
    by (cases c; cases n)
       (auto simp: handshake_agrees_def initialize_def disconnect_def shutdown_def Let_def
             split: sum.splits json.splits)
qed

lemma handshake_agrees_foldl:
  "handshake_agrees (fst p) n \<Longrightarrow>
     handshake_agrees (fst (foldl client_step p calls)) (foldl handshake_step n calls)"
  by (induction calls arbitrary: p n) (simp_all add: handshake_agrees_step)

lemma handshake_agrees_run: "handshake_agrees (fst (client_run calls)) (negotiated_tree calls)"
  unfolding client_run_def negotiated_tree_def
  by (rule handshake_agrees_foldl) (simp add: handshake_agrees_def ClientProtocol_init_def)

text \<open>
  C8: in every run of a client-role instance (initialize, disconnect and shutdown calls
  in any order, with any behaviour of the peer and of the transport), a capability query
  returns false, for every path, as long as initialization has not completed: before the
  first handshake, after an initialize call whose request failed, was answered by
  something that is no object, or whose \<open>initialized\<close> notification could not be sent,
  and after a shutdown or disconnect. Once initialization has completed the query walks
  the capability tree negotiated in the most recent completed initialize exchange. The
  instance's flag is set exactly while initialization is complete, and an initialized
  instance caches the tree of the most recent initialize request the peer answered.
\<close>

theorem has_capability_negotiated:
  "(\<not> initialized s \<longrightarrow> \<not> has_capability s path)
   \<and> (client_run calls = (self, answer) \<and> initialized self \<longrightarrow>
        (\<exists>kvs. answer = Some (JObj kvs)
           \<and> has_capability self path =
               capability_walk (get_capabilities kvs) (split_sep CHR ''.'' path)))
   \<and> initialized (fst (client_run calls)) = (negotiated_tree calls \<noteq> None)
   \<and> has_capability (fst (client_run calls)) path =
        (case negotiated_tree calls of
           None \<Rightarrow> False
         | Some tree \<Rightarrow> capability_walk tree (split_sep CHR ''.'' path))"
proof (intro conjI impI)
  assume "\<not> initialized s"
  then show "\<not> has_capability s path" by (simp add: has_capability_def)
next
  assume run: "client_run calls = (self, answer) \<and> initialized self"
  have "negotiated_inv (client_run calls)" by (rule negotiated_inv_run)
  with run obtain kvs where "answer = Some (JObj kvs)"
    and "server_capabilities self = get_capabilities kvs"
    by (auto simp: negotiated_inv_def)
  with run show "\<exists>kvs. answer = Some (JObj kvs)
           \<and> has_capability self path =
               capability_walk (get_capabilities kvs) (split_sep CHR ''.'' path)"
    by (simp add: has_capability_def)
next
  show "initialized (fst (client_run calls)) = (negotiated_tree calls \<noteq> None)"
    using handshake_agrees_run [of calls]
    by (auto simp: handshake_agrees_def split: option.splits)
next
  show "has_capability (fst (client_run calls)) path =
        (case negotiated_tree calls of
           None \<Rightarrow> False
         | Some tree \<Rightarrow> capability_walk tree (split_sep CHR ''.'' path))"
    using handshake_agrees_run [of calls]
    by (auto simp: handshake_agrees_def has_capability_def split: option.splits)
qed

theorem has_capability_negotiated_witness:
  "client_run
     [Initialize (JObj []) (Inr (JObj [(''capabilities'', JObj [(''tools'', JObj [])])])) (Inr ()),
      Shutdown,
      Initialize (JObj []) (Inr (JObj [(''capabilities'', JObj [(''resources'', JObj [])])])) (Inr ())]
     = (\<lparr>initialized = True, server_capabilities = JObj [(''resources'', JObj [])],
         client_capabilities = JObj [],
         server_info = JObj [(''capabilities'', JObj [(''resources'', JObj [])])]\<rparr>,
        Some (JObj [(''capabilities'', JObj [(''resources'', JObj [])])]))
   \<and> negotiated_tree
     [Initialize (JObj []) (Inr (JObj [(''capabilities'', JObj [(''tools'', JObj [])])])) (Inr ()),
      Shutdown,
      Initialize (JObj []) (Inr (JObj [(''capabilities'', JObj [(''resources'', JObj [])])])) (Inr ())]
     = Some (JObj [(''resources'', JObj [])])
   \<and> has_capability
        \<lparr>initialized = True, server_capabilities = JObj [(''resources'', JObj [])],
         client_capabilities = JObj [],
         server_info = JObj [(''capabilities'', JObj [(''resources'', JObj [])])]\<rparr> ''resources''
   \<and> \<not> has_capability
        \<lparr>initialized = True, server_capabilities = JObj [(''resources'', JObj [])],
         client_capabilities = JObj [],
         server_info = JObj [(''capabilities'', JObj [(''resources'', JObj [])])]\<rparr> ''tools''
   \<and> \<not> has_capability ClientProtocol_init ''resources''
   \<and> negotiated_tree
     [Initialize (JObj []) (Inr (JObj [(''capabilities'', JObj [(''resources'', JObj [])])]))
        (Inl (OtherException ''connection lost''))]
     = None
   \<and> \<not> has_capability
        (fst (client_run
           [Initialize (JObj []) (Inr (JObj [(''capabilities'', JObj [(''resources'', JObj [])])]))
              (Inl (OtherException ''connection lost''))])) ''resources''"
  using has_capability_negotiated
    [of ClientProtocol_init "''resources''"
        "[Initialize (JObj []) (Inr (JObj [(''capabilities'', JObj [(''tools'', JObj [])])])) (Inr ()),
          Shutdown,
          Initialize (JObj []) (Inr (JObj [(''capabilities'', JObj [(''resources'', JObj [])])])) (Inr ())]"
        "\<lparr>initialized = True, server_capabilities = JObj [(''resources'', JObj [])],
         client_capabilities = JObj [],
         server_info = JObj [(''capabilities'', JObj [(''resources'', JObj [])])]\<rparr>"
        "Some (JObj [(''capabilities'', JObj [(''resources'', JObj [])])])"]
    has_capability_negotiated
    [of ClientProtocol_init "''resources''"
        "[Initialize (JObj []) (Inr (JObj [(''capabilities'', JObj [(''resources'', JObj [])])]))
            (Inl (OtherException ''connection lost''))]"
        ClientProtocol_init None]
  by (simp add: client_run_def negotiated_tree_def initialize_def shutdown_def
        ClientProtocol_init_def get_capabilities_def has_capability_def)

subsection \<open>Token lifecycle of the password provider\<close>

text \<open>
  C7: a token generated for a profile validates to that profile as long as the clock has
  not passed its expiry (issue time plus the provider's lifetime), whatever the store held
  before; and once \<open>revoke_token\<close> has returned true for a token, validating it returns
  none, at any time.
\<close>

theorem token_lifecycle:
  "(later \<le> now + token_lifetime self \<longrightarrow>
      fst (validate_token (snd (generate_token self user_info token now))
             (fst (generate_token self user_info token now)) later) = Some user_info)
   \<and> (fst (revoke_token self t) \<longrightarrow>
      fst (validate_token (snd (revoke_token self t)) t later) = None)"
  by (auto simp: validate_token_def generate_token_def revoke_token_def split: option.splits)

theorem token_lifecycle_witness:
  "(1200::real) \<le> 1000 + token_lifetime
       \<lparr>users = Map.empty, tokens = Map.empty, token_expiry = Map.empty, token_lifetime = 3600\<rparr>
   \<and> fst (validate_token
         (snd (generate_token
            \<lparr>users = Map.empty, tokens = Map.empty, token_expiry = Map.empty, token_lifetime = 3600\<rparr>
            (JObj [(''username'', JStr ''u'')]) ''5f2a'' 1000))
         ''5f2a'' 1200) = Some (JObj [(''username'', JStr ''u'')])
   \<and> fst (revoke_token
         (snd (generate_token
            \<lparr>users = Map.empty, tokens = Map.empty, token_expiry = Map.empty, token_lifetime = 3600\<rparr>
            (JObj [(''username'', JStr ''u'')]) ''5f2a'' 1000)) ''5f2a'')
   \<and> fst (validate_token
         (snd (revoke_token
            (snd (generate_token
               \<lparr>users = Map.empty, tokens = Map.empty, token_expiry = Map.empty, token_lifetime = 3600\<rparr>
               (JObj [(''username'', JStr ''u'')]) ''5f2a'' 1000)) ''5f2a''))
         ''5f2a'' 1200) = None"
  using token_lifecycle
    [of 1200 1000
        "\<lparr>users = Map.empty, tokens = Map.empty, token_expiry = Map.empty, token_lifetime = 3600\<rparr>"
        "JObj [(''username'', JStr ''u'')]" "''5f2a''" "''5f2a''"]
    token_lifecycle
    [of 1200 1000
        "snd (generate_token
            \<lparr>users = Map.empty, tokens = Map.empty, token_expiry = Map.empty, token_lifetime = 3600\<rparr>
            (JObj [(''username'', JStr ''u'')]) ''5f2a'' 1000)"
        "JObj [(''username'', JStr ''u'')]" "''5f2a''" "''5f2a''"]
  by (simp add: validate_token_def generate_token_def revoke_token_def)

subsection \<open>Access control: removing a role\<close>

lemma assignments_distinct_step:
  "assignments_distinct (user_roles a) \<Longrightarrow> assignments_distinct (user_roles (acl_step a c))"
  by (cases c)
     (auto simp: assignments_distinct_def add_role_def remove_role_def assign_role_def
                 revoke_role_def Let_def
           split: option.splits if_splits)

lemma assignments_distinct_foldl:
  "assignments_distinct (user_roles a) \<Longrightarrow> assignments_distinct (user_roles (foldl acl_step a cs))"
  by (induction cs arbitrary: a) (simp_all add: assignments_distinct_step)

lemma assignments_distinct_init:
  "assignments_distinct (user_roles (AccessControlList_init None))"
  "assignments_distinct ur \<Longrightarrow> assignments_distinct (user_roles (AccessControlList_init (Some (rd, ur))))"
  by (simp_all add: AccessControlList_init_def load_roles_def initialize_default_roles_def
        assignments_distinct_def)

lemma remove_role_absent:
  assumes "assignments_distinct (user_roles a)" and "remove_role a n = (True, a')"
  shows "role_absent n a'"
proof -
  from assms(2) have a': "a' = a\<lparr>roles := (roles a)(n := None),
      user_roles := (\<lambda>username. map_option (remove1 n) (user_roles a username))\<rparr>"
    by (auto simp: remove_role_def split: if_splits)
  have "n \<notin> set (get_user_roles a' u)" for u
  proof (cases "user_roles a u")
    case None
    then show ?thesis by (simp add: a' get_user_roles_def)
  next
    case (Some rs)
    with assms(1) have "distinct rs" by (auto simp: assignments_distinct_def)
    with Some show ?thesis by (simp add: a' get_user_roles_def)
  qed
  then show ?thesis by (simp add: role_absent_def a')
qed

lemma role_absent_step:
  "role_absent n a \<Longrightarrow> \<not> adds_role_named n c \<Longrightarrow> role_absent n (acl_step a c)"
proof (cases c)
  case (AddRole r)
  assume "role_absent n a" "\<not> adds_role_named n c"
  with AddRole show ?thesis
    by (auto simp: role_absent_def add_role_def get_user_roles_def)
next
  case (RemoveRole m)
  assume "role_absent n a" "\<not> adds_role_named n c"
  then have gone: "roles a n = None" and none: "\<And>u. n \<notin> set (get_user_roles a u)"
    by (simp_all add: role_absent_def)
  have "n \<notin> set (get_user_roles (snd (remove_role a m)) u)" for u
  proof (cases "user_roles a u")
    case None
    then show ?thesis by (simp add: remove_role_def get_user_roles_def)
  next
    case (Some rs)
    with none [of u] have "n \<notin> set rs" by (simp add: get_user_roles_def)
    then have "n \<notin> set (remove1 m rs)" by (rule notin_set_remove1)
    with Some \<open>n \<notin> set rs\<close> show ?thesis by (simp add: remove_role_def get_user_roles_def)
  qed
  with gone RemoveRole show ?thesis
    by (simp add: role_absent_def remove_role_def)
next
  case (AssignRole u m)
  assume "role_absent n a" "\<not> adds_role_named n c"
  with AssignRole show ?thesis
    by (auto simp: role_absent_def assign_role_def get_user_roles_def Let_def
             split: option.splits if_splits)
next
  case (RevokeRole u m)
  assume "role_absent n a" "\<not> adds_role_named n c"
  then have gone: "roles a n = None" and none: "\<And>v. n \<notin> set (get_user_roles a v)"
    by (simp_all add: role_absent_def)
  have "n \<notin> set (get_user_roles (snd (revoke_role a u m)) v)" for v
  proof (cases "user_roles a u")
    case None
    with none [of v] show ?thesis by (simp add: revoke_role_def)
  next
    case (Some rs)
    with none [of u] have "n \<notin> set rs" by (simp add: get_user_roles_def)
    then have "n \<notin> set (remove1 m rs)" by (rule notin_set_remove1)
    with Some none [of v] show ?thesis
      by (auto simp: revoke_role_def get_user_roles_def Let_def split: option.splits)
  qed
  moreover have "roles (snd (revoke_role a u m)) n = None"
    using gone by (simp add: revoke_role_def Let_def split: option.splits)
  ultimately show ?thesis using RevokeRole
    by (simp add: role_absent_def)
qed

lemma role_absent_foldl:
  "role_absent n a \<Longrightarrow> \<forall>c \<in> set cs. \<not> adds_role_named n c \<Longrightarrow> role_absent n (foldl acl_step a cs)"
  by (induction cs arbitrary: a) (simp_all add: role_absent_step)
text \<open>
  Where no assignment list names a role twice, \<open>remove_role\<close> does what its comment says.
  \<open>assign_role\<close> appends a name only when the list lacks it, so this covers every run
  from no roles file, or from a roles file whose lists have no repeated name.
\<close>

lemma remove_role_strips_distinct_assignments:
  assumes "file_distinct roles_file"
    and "acl = foldl acl_step (AccessControlList_init roles_file) calls"
    and "remove_role acl n = (True, acl')"
    and "\<forall>c \<in> set later. \<not> adds_role_named n c"
  shows "n \<notin> set (get_user_roles (foldl acl_step acl' later) username)"
proof -
  from assms(1) have "assignments_distinct (user_roles (AccessControlList_init roles_file))"
    by (cases roles_file) (auto simp: file_distinct_def assignments_distinct_init)
  then have "assignments_distinct (user_roles acl)"
    unfolding assms(2) by (rule assignments_distinct_foldl)
  then have "role_absent n acl'"
    using assms(3) by (rule remove_role_absent)
  then have "role_absent n (foldl acl_step acl' later)"
    using assms(4) by (rule role_absent_foldl)
  then show ?thesis by (simp add: role_absent_def)
qed

lemma remove_role_strips_distinct_assignments_example:
  "fst (remove_role
          (foldl acl_step (AccessControlList_init None)
             [AssignRole ''alice'' ''guest'', AssignRole ''alice'' ''user'', AssignRole ''bob'' ''guest''])
          ''guest'')
   \<and> ''guest'' \<notin> set (get_user_roles
          (foldl acl_step
             (snd (remove_role
                (foldl acl_step (AccessControlList_init None)
                   [AssignRole ''alice'' ''guest'', AssignRole ''alice'' ''user'', AssignRole ''bob'' ''guest''])
                ''guest''))
             [AssignRole ''alice'' ''guest'', RevokeRole ''alice'' ''user''])
          ''alice'')"
proof -
  have f: "fst (remove_role
          (foldl acl_step (AccessControlList_init None)
             [AssignRole ''alice'' ''guest'', AssignRole ''alice'' ''user'', AssignRole ''bob'' ''guest''])
          ''guest'')"
    by (simp add: remove_role_def assign_role_def AccessControlList_init_def load_roles_def
          initialize_default_roles_def)
  then have r: "remove_role
          (foldl acl_step (AccessControlList_init None)
             [AssignRole ''alice'' ''guest'', AssignRole ''alice'' ''user'', AssignRole ''bob'' ''guest''])
          ''guest''
        = (True, snd (remove_role
          (foldl acl_step (AccessControlList_init None)
             [AssignRole ''alice'' ''guest'', AssignRole ''alice'' ''user'', AssignRole ''bob'' ''guest''])
          ''guest''))"
    by (simp add: prod_eq_iff)
  have d: "file_distinct None" by (simp add: file_distinct_def)
  have l: "\<forall>c \<in> set [AssignRole ''alice'' ''guest'', RevokeRole ''alice'' ''user''].
             \<not> adds_role_named ''guest'' c"
    by simp
  show ?thesis
    by (intro conjI) (rule f, rule remove_role_strips_distinct_assignments [OF d refl r l])
qed


subsection \<open>Access control: permission checks\<close>

lemma has_permission_items_find:
  "has_permission_items items resource permission =
     (case find (\<lambda>entry. matches (fst entry) resource) items of
        None \<Rightarrow> False
      | Some entry \<Rightarrow> permission \<in> snd entry)"
  by (induction items) auto

lemma has_permission_items_sound:
  "has_permission_items items resource permission \<Longrightarrow>
     \<exists>entry \<in> set items. matches (fst entry) resource \<and> permission \<in> snd entry"
  by (induction items) (auto split: if_splits)

lemma has_permission_roles_sound:
  "has_permission_roles rm names resource permission \<Longrightarrow>
     \<exists>role_name \<in> set names. \<exists>role. rm role_name = Some role
        \<and> (\<exists>entry \<in> set (permissions role). matches (fst entry) resource \<and> permission \<in> snd entry)"
  by (induction names)
     (auto simp: Role_has_permission_def split: option.splits if_splits
           dest: has_permission_items_sound)

text \<open>
  C2 fails on the code. The role \<open>ops\<close> grants \<open>SERVER_VIEW\<close> on every server and
  \<open>SERVER_STOP\<close> on server \<open>s1\<close>; \<open>alice\<close> holds \<open>ops\<close>. The entry for \<open>s1\<close> matches the
  query and grants \<open>SERVER_STOP\<close>, yet \<open>has_permission\<close> answers false: the loop of
  \<open>Role.has_permission\<close> returns at the first entry that matches, the one for all servers.
\<close>

theorem has_permission_first_match_decides:
  "permissions
     (add_permission
        (add_permission \<lparr>name = ''ops'', description = None, permissions = []\<rparr>
           \<lparr>resource_type = ''server'', resource_id = None\<rparr> SERVER_VIEW)
        \<lparr>resource_type = ''server'', resource_id = Some ''s1''\<rparr> SERVER_STOP)
     = [(\<lparr>resource_type = ''server'', resource_id = None\<rparr>, {SERVER_VIEW}),
        (\<lparr>resource_type = ''server'', resource_id = Some ''s1''\<rparr>, {SERVER_STOP})]
   \<and> matches \<lparr>resource_type = ''server'', resource_id = Some ''s1''\<rparr>
        \<lparr>resource_type = ''server'', resource_id = Some ''s1''\<rparr>
   \<and> get_user_roles
        (snd (assign_role
           (add_role (AccessControlList_init None)
              (add_permission
                 (add_permission \<lparr>name = ''ops'', description = None, permissions = []\<rparr>
                    \<lparr>resource_type = ''server'', resource_id = None\<rparr> SERVER_VIEW)
                 \<lparr>resource_type = ''server'', resource_id = Some ''s1''\<rparr> SERVER_STOP))
           ''alice'' ''ops'')) ''alice'' = [''ops'']
   \<and> roles
        (snd (assign_role
           (add_role (AccessControlList_init None)
              (add_permission
                 (add_permission \<lparr>name = ''ops'', description = None, permissions = []\<rparr>
                    \<lparr>resource_type = ''server'', resource_id = None\<rparr> SERVER_VIEW)
                 \<lparr>resource_type = ''server'', resource_id = Some ''s1''\<rparr> SERVER_STOP))
           ''alice'' ''ops'')) ''ops''
     = Some (add_permission
           (add_permission \<lparr>name = ''ops'', description = None, permissions = []\<rparr>
              \<lparr>resource_type = ''server'', resource_id = None\<rparr> SERVER_VIEW)
           \<lparr>resource_type = ''server'', resource_id = Some ''s1''\<rparr> SERVER_STOP)
   \<and> \<not> has_permission
        (snd (assign_role
           (add_role (AccessControlList_init None)
              (add_permission
                 (add_permission \<lparr>name = ''ops'', description = None, permissions = []\<rparr>
                    \<lparr>resource_type = ''server'', resource_id = None\<rparr> SERVER_VIEW)
                 \<lparr>resource_type = ''server'', resource_id = Some ''s1''\<rparr> SERVER_STOP))
           ''alice'' ''ops''))
        ''alice'' \<lparr>resource_type = ''server'', resource_id = Some ''s1''\<rparr> SERVER_STOP"
  by (simp add: add_permission_def matches_def get_user_roles_def assign_role_def add_role_def
        AccessControlList_init_def load_roles_def initialize_default_roles_def
        has_permission_def Role_has_permission_def)

subsection \<open>Router lookup\<close>

lemma get_matching_routes_eq_filter:
  "get_matching_routes routes_iter src method = filter (passes_filters src method) routes_iter"
  unfolding get_matching_routes_def Let_def passes_filters_def source_type_filter_def
    source_id_filter_def
  by (auto simp: filter_empty_conv empty_filter_conv intro!: filter_cong)

text \<open>
  C1, as stated, fails on the order: the route table is a set. A router to which
  \<open>c1_tools_to_s1\<close> was added before \<open>c1_any_to_s2\<close> is the same object state as one built
  in the other order, and for an iteration of its set that yields \<open>c1_any_to_s2\<close> first
  the lookup returns the two matching routes in that order, not in insertion order.
\<close>

theorem get_matching_routes_order_counterexample:
  "add_route (add_route MessageRouter_init c1_tools_to_s1) c1_any_to_s2
     = add_route (add_route MessageRouter_init c1_any_to_s2) c1_tools_to_s1
   \<and> iteration_of (add_route (add_route MessageRouter_init c1_tools_to_s1) c1_any_to_s2)
        [c1_any_to_s2, hub_to_clients, c1_tools_to_s1, clients_to_hub]
   \<and> get_matching_routes [c1_any_to_s2, hub_to_clients, c1_tools_to_s1, clients_to_hub]
        \<lparr>route_type = CLIENT, target_id = Some ''c1'', capability = None\<rparr> ''tools/call''
      = [c1_any_to_s2, c1_tools_to_s1]"
proof (intro conjI)
  show "add_route (add_route MessageRouter_init c1_tools_to_s1) c1_any_to_s2
     = add_route (add_route MessageRouter_init c1_any_to_s2) c1_tools_to_s1"
    by (simp add: add_route_def insert_commute)
  show "iteration_of (add_route (add_route MessageRouter_init c1_tools_to_s1) c1_any_to_s2)
        [c1_any_to_s2, hub_to_clients, c1_tools_to_s1, clients_to_hub]"
    by (auto simp: iteration_of_def add_route_def MessageRouter_init_def
          initialize_default_routes_def)
  show "get_matching_routes [c1_any_to_s2, hub_to_clients, c1_tools_to_s1, clients_to_hub]
        \<lparr>route_type = CLIENT, target_id = Some ''c1'', capability = None\<rparr> ''tools/call''
      = [c1_any_to_s2, c1_tools_to_s1]"
    by (simp add: get_matching_routes_def matches_method_def startswith_def endswith_def)
qed

text \<open>
  C1, amended: for every router, every sequence in which its route set is iterated and
  every (source, method), \<open>get_matching_routes\<close> returns exactly the routes of the set that
  pass all three filters (source route type; target id for a SERVER or CLIENT source with
  an id, capability for a CAPABILITY source with one; method pattern), each once, in the
  order of the set's iteration.
\<close>

theorem get_matching_routes_filters:
  assumes "iteration_of self routes_iter"
  shows "get_matching_routes routes_iter src method = filter (passes_filters src method) routes_iter
    \<and> set (get_matching_routes routes_iter src method)
        = {route. route \<in> routes self \<and> passes_filters src method route}
    \<and> distinct (get_matching_routes routes_iter src method)"
  using assms by (auto simp: get_matching_routes_eq_filter iteration_of_def)

theorem get_matching_routes_filters_witness:
  "get_matching_routes [hub_to_clients, c1_tools_to_s1, c1_any_to_s2, clients_to_hub]
        \<lparr>route_type = CLIENT, target_id = Some ''c1'', capability = None\<rparr> ''resources/list''
      = [c1_any_to_s2]
   \<and> set (get_matching_routes [hub_to_clients, c1_tools_to_s1, c1_any_to_s2, clients_to_hub]
        \<lparr>route_type = CLIENT, target_id = Some ''c1'', capability = None\<rparr> ''resources/list'')
      = {route. route \<in> routes (add_route (add_route MessageRouter_init c1_tools_to_s1) c1_any_to_s2)
           \<and> passes_filters \<lparr>route_type = CLIENT, target_id = Some ''c1'', capability = None\<rparr>
                ''resources/list'' route}"
proof -
  have it: "iteration_of (add_route (add_route MessageRouter_init c1_tools_to_s1) c1_any_to_s2)
        [hub_to_clients, c1_tools_to_s1, c1_any_to_s2, clients_to_hub]"
    by (auto simp: iteration_of_def add_route_def MessageRouter_init_def
          initialize_default_routes_def)
  have "filter (passes_filters \<lparr>route_type = CLIENT, target_id = Some ''c1'', capability = None\<rparr>
                ''resources/list'')
          [hub_to_clients, c1_tools_to_s1, c1_any_to_s2, clients_to_hub] = [c1_any_to_s2]"
    by (simp add: passes_filters_def source_type_filter_def source_id_filter_def
          matches_method_def startswith_def endswith_def)
  note f = this
  note w = get_matching_routes_filters [OF it,
      of "\<lparr>route_type = CLIENT, target_id = Some ''c1'', capability = None\<rparr>" "''resources/list''"]
  from w f have "get_matching_routes [hub_to_clients, c1_tools_to_s1, c1_any_to_s2, clients_to_hub]
        \<lparr>route_type = CLIENT, target_id = Some ''c1'', capability = None\<rparr> ''resources/list''
      = [c1_any_to_s2]"
    by (simp only:)
  then show ?thesis
    by (rule conjI) (rule w [THEN conjunct2, THEN conjunct1])
qed

subsection \<open>Supervisor: automatic restarts\<close>

lemma flaky_round_fixpoint:
  "foldl supervisor_step
     (fresh_manager\<lparr>servers :=
         [(''flaky'', \<lparr>config = flaky_config, process = Some None, running = True, retries = 0,
                      info_auto_restart = JBool True, exit_code = None\<rparr>)]\<rparr>)
     flaky_round
   = fresh_manager\<lparr>servers :=
         [(''flaky'', \<lparr>config = flaky_config, process = Some None, running = True, retries = 0,
                      info_auto_restart = JBool True, exit_code = None\<rparr>)]\<rparr>"
  by (simp add: child_exits_def monitor_servers_def monitor_server_def delayed_restart_def
        start_server_def Let_def)

lemma flaky_round_schedules:
  "scheduled_restarts
     (fresh_manager\<lparr>servers :=
         [(''flaky'', \<lparr>config = flaky_config, process = Some None, running = True, retries = 0,
                      info_auto_restart = JBool True, exit_code = None\<rparr>)]\<rparr>)
     flaky_round = 1"
  by (simp add: child_exits_def monitor_servers_def monitor_server_def delayed_restart_def
        start_server_def Let_def)

lemma scheduled_restarts_append:
  "scheduled_restarts s (es @ fs)
     = scheduled_restarts s es + scheduled_restarts (foldl supervisor_step s es) fs"
  by (induction es arbitrary: s) simp_all

lemma flaky_rounds:
  "foldl supervisor_step
     (fresh_manager\<lparr>servers :=
         [(''flaky'', \<lparr>config = flaky_config, process = Some None, running = True, retries = 0,
                      info_auto_restart = JBool True, exit_code = None\<rparr>)]\<rparr>)
     (concat (replicate n flaky_round))
   = fresh_manager\<lparr>servers :=
         [(''flaky'', \<lparr>config = flaky_config, process = Some None, running = True, retries = 0,
                      info_auto_restart = JBool True, exit_code = None\<rparr>)]\<rparr>
   \<and> scheduled_restarts
     (fresh_manager\<lparr>servers :=
         [(''flaky'', \<lparr>config = flaky_config, process = Some None, running = True, retries = 0,
                      info_auto_restart = JBool True, exit_code = None\<rparr>)]\<rparr>)
     (concat (replicate n flaky_round)) = n"
proof (induction n)
  case 0
  show ?case by simp
next
  case (Suc n)
  have "concat (replicate (Suc n) flaky_round) = flaky_round @ concat (replicate n flaky_round)"
    by simp
  then show ?case
    using Suc flaky_round_fixpoint flaky_round_schedules
    by (simp only: foldl_append scheduled_restarts_append) simp
qed

text \<open>
  C3 fails on the code. With \<open>max_retries = 3\<close> and \<open>auto_restart\<close> on, a server whose
  child exits after every start is restarted by the monitor without bound: after the
  explicit start, \<open>n\<close> rounds of exit, monitor pass and delayed restart schedule \<open>n\<close>
  automatic restarts, for every \<open>n\<close> (so more than three), and leave the retry counter
  at 0. The delayed restart goes through \<open>start_server\<close>, which stores \<open>"retries": 0\<close>
  in the new entry, so the counter the monitor incremented is reset before the next exit
  and never reaches \<open>max_retries\<close>.
\<close>

theorem auto_restart_unbounded:
  "scheduled_restarts fresh_manager
     (StartServer ''flaky'' flaky_config True # concat (replicate n flaky_round)) = n
   \<and> map_option retries
        (map_of (servers (foldl supervisor_step fresh_manager
           (StartServer ''flaky'' flaky_config True # concat (replicate n flaky_round)))) ''flaky'')
      = Some 0"
  using flaky_rounds [of n] by (simp add: start_server_def)

text \<open>
  The check in the monitor is as the claim says: for an entry whose counter has reached
  \<open>max_retries\<close>, a monitor pass over it schedules nothing.
\<close>

lemma monitor_server_saturated:
  "map_of (servers self) server_id = Some info \<Longrightarrow> max_retries self \<le> retries info \<Longrightarrow>
     pending_restarts (monitor_server self server_id) = pending_restarts self"
  by (auto simp: monitor_server_def Let_def split: option.splits)

subsection \<open>Requests to the hub\<close>

lemma filter_raising_total:
  "filter_raising (\<lambda>x. Inr (p x)) xs = Inr (filter p xs)"
  by (induction xs) simp_all

text \<open>On a method that is a string the lookup is the one of the router section.\<close>

lemma get_matching_routes_json_string:
  "get_matching_routes_json routes_iter src (JStr m) = Inr (get_matching_routes routes_iter src m)"
  by (simp add: get_matching_routes_json_def get_matching_routes_def matches_method_json_def
        filter_raising_total Let_def)


lemma hub_status_answered:
  "fst (handle_hub_directed_message no_providers idle_hub ()
        [(''jsonrpc'', JStr ''2.0''), (''id'', JStr ''1''), (''method'', JStr ''hub/status'')])
   = Inr (Some (JObj
       [(''id'', JStr ''1''),
        (''result'', JObj
           [(''status'', JStr ''running''), (''server_count'', JNum 0), (''client_count'', JNum 0),
            (''mcp_server_count'', JNum 0), (''mcp_client_count'', JNum 0)])]))"
  by (simp add: handle_hub_directed_message_def dict_get_def)

text \<open>
  The router reads the handler table at the type of the destination, and for HUB the hub
  registered \<open>_handle_hub_message\<close>, which has no branch for a HUB destination.
\<close>

lemma setup_message_handlers_HUB:
  "setup_message_handlers parts HUB = Some (handle_hub_message parts)"
  by (simp add: setup_message_handlers_def register_message_handler_def)

lemma handle_hub_message_HUB:
  "route_type dst = HUB \<Longrightarrow> handle_hub_message parts message src dst auth_state = (Inr None, [], auth_state)"
  by (simp add: handle_hub_message_def)


text \<open>
  So on this path a request for an implemented method gets no response either; the
  handler that implements the hub methods is called by \<open>_handle_server_message\<close> and
  \<open>_handle_client_message\<close> only, which the router runs for SERVER and CLIENT destinations.
\<close>

lemma hub_status_unanswered_on_route:
  "HubManager_route_message router_std_env [clients_to_hub, hub_to_clients] bare_hub
     [(''jsonrpc'', JStr ''2.0''), (''id'', JStr ''1''), (''method'', JStr ''hub/status'')]
     ALL_CLIENTS None ()
   = Inr (None, [], ())"
  by (simp add: HubManager_route_message_def RouteTarget_new_def route_message_def
        get_matching_routes_json_string get_matching_routes_def matches_method_def
        setup_message_handlers_HUB handle_hub_message_HUB)




subsection \<open>Broadcast handlers\<close>

lemma broadcast_forwarded:
  "snd (broadcast forward message first forwarded members) = forwarded @ map fst members"
  by (induction members arbitrary: first forwarded) (auto split: sum.splits)

lemma broadcast_keeps_first:
  "first \<noteq> None \<Longrightarrow> fst (broadcast forward message first forwarded members) = first"
  by (induction members arbitrary: forwarded) (auto split: sum.splits)

lemma broadcast_first_answer:
  "fst (broadcast forward message None forwarded members) = first_answer forward message members"
proof (induction members arbitrary: forwarded)
  case Nil
  show ?case by (simp add: first_answer_def)
next
  case (Cons entry members)
  obtain member_id member where entry: "entry = (member_id, member)" by (cases entry)
  show ?case
  proof (cases "answers forward message member")
    case True
    then obtain response where r: "forward member message = Inr response"
      and t: "response_truthy response"
      by (auto simp: answers_def split: sum.splits)
    from t have "response \<noteq> None" by (cases response) (auto simp: response_truthy_def)
    with r t entry True show ?thesis
      by (simp add: first_answer_def broadcast_keeps_first)
  next
    case False
    with entry Cons.IH show ?thesis
      by (auto simp: first_answer_def answers_def split: sum.splits)
  qed
qed

lemma broadcast_eq:
  "broadcast forward message None [] members = (first_answer forward message members, map fst members)"
  using broadcast_first_answer [of forward message "[]" members]
    broadcast_forwarded [of forward message None "[]" members]
  by (simp add: prod_eq_iff)

lemma first_answer_none:
  "\<forall>entry \<in> set members. \<not> answers forward message (snd entry) \<Longrightarrow>
     first_answer forward message members = None"
proof -
  assume "\<forall>entry \<in> set members. \<not> answers forward message (snd entry)"
  then have "find (\<lambda>entry. answers forward message (snd entry)) members = None"
    by (auto simp: find_None_iff)
  then show ?thesis by (simp add: first_answer_def)
qed

text \<open>
  C5, as stated, fails. When forwarding fails at every server, the ALL_SERVERS handler
  returns \<open>None\<close>, not an internal-error response (code -32603). And the response returned
  is not the first non-null one: a member that answers with the empty dict \<open>{}\<close> is passed
  over, since the loop tests \<open>if response\<close>.
\<close>

theorem broadcast_counterexample:
  "handle_all_servers_message outcome_of
     [(''s1'', Inl (OtherException ''connection lost'')),
      (''s2'', Inl (OtherException ''connection lost''))] ping
   = (None, [''s1'', ''s2''])
   \<and> None \<noteq> Some (error_response (JStr ''9'') (- 32603) ''Internal error'')
   \<and> handle_all_clients_message outcome_of
     [(''c1'', Inr (Some (JObj []))),
      (''c2'', Inr (Some (JObj [(''id'', JStr ''9''), (''result'', JObj [(''ok'', JBool True)])])))] ping
   = (Some (JObj [(''id'', JStr ''9''), (''result'', JObj [(''ok'', JBool True)])]), [''c1'', ''c2''])"
  by (simp add: handle_all_servers_message_def handle_all_clients_message_def response_truthy_def)

text \<open>
  C5, amended: for a message matched to an ALL_SERVERS, ALL_CLIENTS or CAPABILITY
  destination, the handler forwards it to every member (every connected server, every
  connected client, every connected server that has the capability), in the table's
  order, and returns the first response that is true in Python (neither \<open>None\<close> nor empty);
  when no member gives such a response, in particular when every forward fails, it
  returns \<open>None\<close>, and no error response.
\<close>

theorem broadcast_first_truthy_response:
  "handle_all_servers_message forward connections message
     = (first_answer forward message connections, map fst connections)
   \<and> handle_all_clients_message forward clients message
     = (first_answer forward message clients, map fst clients)
   \<and> handle_capability_message forward supports connections cap message
     = (first_answer forward message
          (filter (\<lambda>(server_id, connection). supports connection cap) connections),
        map fst (filter (\<lambda>(server_id, connection). supports connection cap) connections))
   \<and> ((\<forall>entry \<in> set members. \<not> answers forward message (snd entry)) \<longrightarrow>
        first_answer forward message members = None)"
proof (intro conjI impI)
  show "handle_all_servers_message forward connections message
     = (first_answer forward message connections, map fst connections)"
    by (simp add: handle_all_servers_message_def broadcast_eq first_answer_def)
  show "handle_all_clients_message forward clients message
     = (first_answer forward message clients, map fst clients)"
    by (simp add: handle_all_clients_message_def broadcast_eq first_answer_def)
  show "handle_capability_message forward supports connections cap message
     = (first_answer forward message
          (filter (\<lambda>(server_id, connection). supports connection cap) connections),
        map fst (filter (\<lambda>(server_id, connection). supports connection cap) connections))"
    by (simp add: handle_capability_message_def Let_def broadcast_eq first_answer_def)
  show "first_answer forward message members = None"
    if "\<forall>entry \<in> set members. \<not> answers forward message (snd entry)"
    using that by (rule first_answer_none)
qed

theorem broadcast_first_truthy_response_witness:
  "handle_all_servers_message outcome_of
     [(''s1'', Inl (OtherException ''connection lost'')),
      (''s2'', Inr None),
      (''s3'', Inr (Some (JObj [(''id'', JStr ''9''), (''result'', JObj [(''n'', JNum 3)])]))),
      (''s4'', Inr (Some (JObj [(''id'', JStr ''9''), (''result'', JObj [(''n'', JNum 4)])])))] ping
   = (Some (JObj [(''id'', JStr ''9''), (''result'', JObj [(''n'', JNum 3)])]),
      [''s1'', ''s2'', ''s3'', ''s4''])
   \<and> first_answer outcome_of ping
        [(''s1'', Inl (OtherException ''connection lost'')), (''s2'', Inr None)] = None"
proof -
  have none: "\<forall>entry \<in> set [(''s1'', Inl (OtherException ''connection lost'')), (''s2'', Inr None)].
      \<not> answers outcome_of ping (snd entry)"
    by (simp add: answers_def response_truthy_def)
  have first: "first_answer outcome_of ping
     [(''s1'', Inl (OtherException ''connection lost'')),
      (''s2'', Inr None),
      (''s3'', Inr (Some (JObj [(''id'', JStr ''9''), (''result'', JObj [(''n'', JNum 3)])]))),
      (''s4'', Inr (Some (JObj [(''id'', JStr ''9''), (''result'', JObj [(''n'', JNum 4)])])))]
    = Some (JObj [(''id'', JStr ''9''), (''result'', JObj [(''n'', JNum 3)])])"
    by (simp add: first_answer_def answers_def response_truthy_def)
  note w = broadcast_first_truthy_response
    [of outcome_of
        "[(''s1'', Inl (OtherException ''connection lost'')),
          (''s2'', Inr None),
          (''s3'', Inr (Some (JObj [(''id'', JStr ''9''), (''result'', JObj [(''n'', JNum 3)])]))),
          (''s4'', Inr (Some (JObj [(''id'', JStr ''9''), (''result'', JObj [(''n'', JNum 4)])])))]"
        ping "[]" "\<lambda>c p. True" "[]"
        "[(''s1'', Inl (OtherException ''connection lost'')), (''s2'', Inr None)]"]
  from w first none show ?thesis by simp
qed

subsection \<open>Stdio frames without payload\<close>

lemma json_loads_empty: "json_loads [] = Inl JSONDecodeError"
  by code_simp

lemma json_loads_empty_object: "json_loads ''{}'' = Inr (JObj [])"
  by code_simp

lemma receive_empty_frame:
  "receive_message (''Content-Length: 0'' @ [CR, LF, CR, LF] @ rest) = Inr (Some [], rest)"
  by (simp add: receive_message_def startswith_def py_int_def strip_def is_space_def
        is_digit_def digit_val_def)

text \<open>
  C6, as stated, fails. The frame \<open>Content-Length: 0\<close> yields the empty payload; the
  dispatcher hands it to the JSON decoder as it is, the decoder rejects it, and the
  response is a parse error (code -32700) with id null. It is not the response to \<open>{}\<close>,
  which is invalid-request (code -32600).
\<close>

theorem empty_payload_counterexample:
  "receive_message (''Content-Length: 0'' @ [CR, LF, CR, LF]) = Inr (Some [], [])
   \<and> fst (handle_message std_env no_request no_notice no_notice () [])
       = Some (protocol_error (- 32700) ''Invalid JSON'')
   \<and> fst (handle_message std_env no_request no_notice no_notice () [])
       \<noteq> Some (protocol_error (- 32600) ''Invalid message format'')
   \<and> fst (handle_message std_env no_request no_notice no_notice () ''{}'')
       = Some (protocol_error (- 32600) ''Invalid message format'')"
proof (intro conjI)
  show "receive_message (''Content-Length: 0'' @ [CR, LF, CR, LF]) = Inr (Some [], [])"
    by code_simp
  show "fst (handle_message std_env no_request no_notice no_notice () [])
       = Some (protocol_error (- 32700) ''Invalid JSON'')"
    by (simp add: handle_message_def json_loads_empty PARSE_ERROR_def)
  then show "fst (handle_message std_env no_request no_notice no_notice () [])
       \<noteq> Some (protocol_error (- 32600) ''Invalid message format'')"
    by (simp add: protocol_error_def)
  show "fst (handle_message std_env no_request no_notice no_notice () ''{}'')
       = Some (protocol_error (- 32600) ''Invalid message format'')"
    by (simp add: handle_message_def json_loads_empty_object py_in_def INVALID_REQUEST_def)
qed

text \<open>
  C6, amended: a stdio frame with Content-Length 0 hands the empty payload to the
  dispatcher; the empty payload is not valid JSON (\<open>json.loads\<close> raises
  \<open>JSONDecodeError\<close> on it), so the dispatcher answers with a parse-error response (code
  -32700) with id null. It is the payload \<open>{}\<close>, decoded to the empty object, that
  produces an invalid-request error response (code -32600) with id null.
\<close>

theorem empty_payload_parse_error:
  "receive_message (''Content-Length: 0'' @ [CR, LF, CR, LF] @ rest) = Inr (Some [], rest)
   \<and> (loads env [] = Inl JSONDecodeError \<longrightarrow>
        handle_message env handle_request handle_notification handle_response self []
          = (Some (protocol_error PARSE_ERROR ''Invalid JSON''), self))
   \<and> (loads env ''{}'' = Inr (JObj []) \<longrightarrow>
        handle_message env handle_request handle_notification handle_response self ''{}''
          = (Some (protocol_error INVALID_REQUEST ''Invalid message format''), self))"
proof (intro conjI impI)
  show "receive_message (''Content-Length: 0'' @ [CR, LF, CR, LF] @ rest) = Inr (Some [], rest)"
    by (rule receive_empty_frame)
  show "handle_message env handle_request handle_notification handle_response self []
          = (Some (protocol_error PARSE_ERROR ''Invalid JSON''), self)"
    if "loads env [] = Inl JSONDecodeError"
    using that by (simp add: handle_message_def)
  show "handle_message env handle_request handle_notification handle_response self ''{}''
          = (Some (protocol_error INVALID_REQUEST ''Invalid message format''), self)"
    if "loads env ''{}'' = Inr (JObj [])"
    using that by (simp add: handle_message_def py_in_def)
qed

theorem empty_payload_parse_error_witness:
  "loads std_env [] = Inl JSONDecodeError
   \<and> handle_message std_env no_request no_notice no_notice () []
       = (Some (protocol_error PARSE_ERROR ''Invalid JSON''), ())
   \<and> loads std_env ''{}'' = Inr (JObj [])
   \<and> handle_message std_env no_request no_notice no_notice () ''{}''
       = (Some (protocol_error INVALID_REQUEST ''Invalid message format''), ())
   \<and> PARSE_ERROR = - 32700 \<and> INVALID_REQUEST = - 32600"
  using empty_payload_parse_error [of "[]" std_env no_request no_notice no_notice "()"]
  by (simp add: json_loads_empty json_loads_empty_object PARSE_ERROR_def INVALID_REQUEST_def)

end
